theory Spec2Isabelle
  imports Main "HOL-Library.AList"
begin

section \<open>Python values and errors\<close>

text \<open>
  The collector works on decoded JSON: dictionaries, lists, strings, integers, booleans
  and \<open>None\<close>. A dictionary is the list of its items; \<open>.get\<close> is the lookup
  \<open>map_of\<close>. Numbers with a fractional part are not part of the model.
\<close>

datatype json =
    JNull
  | JBool bool
  | JInt int
  | JStr string
  | JArr "json list"
  | JObj "(string \<times> json) list"

text \<open>The exceptions that the modelled code can raise and does not catch.\<close>

datatype error =
    AttributeError
  | TypeError
  | OverflowError
  | ProgrammingError
  | IntegrityError
  | OtherError

fun bindE :: "error + 'a \<Rightarrow> ('a \<Rightarrow> error + 'b) \<Rightarrow> error + 'b" where
  "bindE (Inl e) f = Inl e"
| "bindE (Inr x) f = f x"

text \<open>\<open>d.get(k, default)\<close> on a dictionary.\<close>

definition dict_get :: "(string \<times> json) list \<Rightarrow> string \<Rightarrow> json \<Rightarrow> json" where
  "dict_get kvs k dflt = (case map_of kvs k of None \<Rightarrow> dflt | Some v \<Rightarrow> v)"

text \<open>\<open>x.get(k, default)\<close> on any value: only a dictionary has the method.\<close>

fun py_get :: "json \<Rightarrow> string \<Rightarrow> json \<Rightarrow> error + json" where
  "py_get (JObj kvs) k dflt = Inr (dict_get kvs k dflt)"
| "py_get _ k dflt = Inl AttributeError"

text \<open>
  \<open>for x in v\<close>: a list yields its elements, a dictionary its keys, a string its
  characters; \<open>None\<close>, a boolean and an integer are not iterable.
\<close>

fun py_iter :: "json \<Rightarrow> error + json list" where
  "py_iter (JArr xs) = Inr xs"
| "py_iter (JObj kvs) = Inr (map (\<lambda>kv. JStr (fst kv)) kvs)"
| "py_iter (JStr s) = Inr (map (\<lambda>c. JStr [c]) s)"
| "py_iter _ = Inl TypeError"

section \<open>Parsing a response: \<open>parse_rides\<close>\<close>

text \<open>The dictionary that \<open>parse_rides\<close> appends for one ride.\<close>

record ride =
  r_id :: json
  r_name :: json
  r_is_open :: json
  r_wait_time :: json
  r_last_updated :: json
  r_land_id :: json
  r_land_name :: json
  r_park_id :: int

text \<open>
  The dictionary literal of the two loop bodies. Its first \<open>ride.get\<close> raises
  \<open>AttributeError\<close> when the array element is not a dictionary.
\<close>

fun new_ride :: "json \<Rightarrow> json \<Rightarrow> json \<Rightarrow> int \<Rightarrow> error + ride" where
  "new_ride (JObj kvs) land_id land_name park_id = Inr
     \<lparr> r_id = dict_get kvs ''id'' JNull,
       r_name = dict_get kvs ''name'' JNull,
       r_is_open = dict_get kvs ''is_open'' (JBool False),
       r_wait_time = dict_get kvs ''wait_time'' JNull,
       r_last_updated = dict_get kvs ''last_updated'' JNull,
       r_land_id = land_id,
       r_land_name = land_name,
       r_park_id = park_id \<rparr>"
| "new_ride _ land_id land_name park_id = Inl AttributeError"

text \<open>The loop over a rides array, appending to the list \<open>rides\<close>.\<close>

fun rides_loop :: "json list \<Rightarrow> json \<Rightarrow> json \<Rightarrow> int \<Rightarrow> ride list \<Rightarrow> error + ride list" where
  "rides_loop [] land_id land_name park_id rides = Inr rides"
| "rides_loop (x # xs) land_id land_name park_id rides =
     bindE (new_ride x land_id land_name park_id)
       (\<lambda>r. rides_loop xs land_id land_name park_id (rides @ [r]))"

text \<open>The loop over the lands array.\<close>

fun lands_loop :: "json list \<Rightarrow> int \<Rightarrow> ride list \<Rightarrow> error + ride list" where
  "lands_loop [] park_id rides = Inr rides"
| "lands_loop (land # ls) park_id rides =
     bindE (py_get land ''id'' JNull) (\<lambda>land_id.
     bindE (py_get land ''name'' JNull) (\<lambda>land_name.
     bindE (py_get land ''rides'' (JArr [])) (\<lambda>rs.
     bindE (py_iter rs) (\<lambda>xs.
     bindE (rides_loop xs land_id land_name park_id rides) (\<lambda>rides'.
     lands_loop ls park_id rides')))))"

definition parse_rides :: "json \<Rightarrow> int \<Rightarrow> error + ride list" where
  "parse_rides api_response park_id =
     bindE (py_get api_response ''lands'' (JArr [])) (\<lambda>ls.
     bindE (py_iter ls) (\<lambda>lands.
     bindE (lands_loop lands park_id []) (\<lambda>rides.
     bindE (py_get api_response ''rides'' (JArr [])) (\<lambda>rs.
     bindE (py_iter rs) (\<lambda>xs.
     rides_loop xs JNull JNull park_id rides)))))"

subsection \<open>The shape of a response\<close>

text \<open>
  A response as the remote interface documents it: a dictionary whose \<open>lands\<close>, when
  present, is an array of dictionaries, and where every \<open>rides\<close>, when present, is an
  array of dictionaries. Nothing is required of the other fields.
\<close>

fun is_dict :: "json \<Rightarrow> bool" where
  "is_dict (JObj kvs) = True"
| "is_dict _ = False"

fun has_rides_array :: "json \<Rightarrow> bool" where
  "has_rides_array (JObj kvs) =
     (case map_of kvs ''rides'' of
        None \<Rightarrow> True
      | Some (JArr rs) \<Rightarrow> list_all is_dict rs
      | Some _ \<Rightarrow> False)"
| "has_rides_array _ = False"

fun valid_response :: "json \<Rightarrow> bool" where
  "valid_response (JObj kvs) =
     (has_rides_array (JObj kvs) \<and>
      (case map_of kvs ''lands'' of
         None \<Rightarrow> True
       | Some (JArr ls) \<Rightarrow> list_all has_rides_array ls
       | Some _ \<Rightarrow> False))"
| "valid_response _ = False"

text \<open>The arrays and fields the specification speaks of, empty or default when absent.\<close>

fun field :: "json \<Rightarrow> string \<Rightarrow> json \<Rightarrow> json" where
  "field (JObj kvs) k dflt = dict_get kvs k dflt"
| "field _ k dflt = dflt"

fun array_items :: "json \<Rightarrow> json list" where
  "array_items (JArr xs) = xs"
| "array_items _ = []"

definition rides_of :: "json \<Rightarrow> json list" where
  "rides_of j = array_items (field j ''rides'' (JArr []))"

definition lands_of :: "json \<Rightarrow> json list" where
  "lands_of j = array_items (field j ''lands'' (JArr []))"

text \<open>The record the specification expects for a ride, given the land fields.\<close>

definition expected_ride :: "json \<Rightarrow> json \<Rightarrow> int \<Rightarrow> json \<Rightarrow> ride" where
  "expected_ride land_id land_name park_id x =
     \<lparr> r_id = field x ''id'' JNull,
       r_name = field x ''name'' JNull,
       r_is_open = field x ''is_open'' (JBool False),
       r_wait_time = field x ''wait_time'' JNull,
       r_last_updated = field x ''last_updated'' JNull,
       r_land_id = land_id,
       r_land_name = land_name,
       r_park_id = park_id \<rparr>"

definition land_rides :: "int \<Rightarrow> json \<Rightarrow> ride list" where
  "land_rides park_id land =
     map (expected_ride (field land ''id'' JNull) (field land ''name'' JNull) park_id)
       (rides_of land)"

definition expected_rides :: "json \<Rightarrow> int \<Rightarrow> ride list" where
  "expected_rides resp park_id =
     concat (map (land_rides park_id) (lands_of resp))
     @ map (expected_ride JNull JNull park_id) (rides_of resp)"

text \<open>Every nested ride paired with the land that holds it, in encounter order.\<close>

definition land_ride_pairs :: "json \<Rightarrow> (json \<times> json) list" where
  "land_ride_pairs resp =
     concat (map (\<lambda>land. map (Pair land) (rides_of land)) (lands_of resp))"

subsection \<open>The response of the repository's parser tests\<close>

definition sample_response :: json where
  "sample_response = JObj
     [(''lands'', JArr
        [JObj [(''id'', JInt 100),
               (''name'', JStr ''The Wizarding World of Harry Potter''),
               (''rides'', JArr
                  [JObj [(''id'', JInt 1001),
                         (''name'', JStr ''Hagrid's Magical Creatures Motorbike Adventure''),
                         (''is_open'', JBool True),
                         (''wait_time'', JInt 120),
                         (''last_updated'', JStr ''2025-12-30T14:30:00.000Z'')],
                   JObj [(''id'', JInt 1002),
                         (''name'', JStr ''Harry Potter and the Forbidden Journey''),
                         (''is_open'', JBool True),
                         (''wait_time'', JInt 45),
                         (''last_updated'', JStr ''2025-12-30T14:30:00.000Z'')]])],
         JObj [(''id'', JInt 101),
               (''name'', JStr ''Jurassic Park''),
               (''rides'', JArr
                  [JObj [(''id'', JInt 1003),
                         (''name'', JStr ''VelociCoaster''),
                         (''is_open'', JBool False),
                         (''wait_time'', JNull),
                         (''last_updated'', JStr ''2025-12-30T14:30:00.000Z'')]])]]),
      (''rides'', JArr
        [JObj [(''id'', JInt 2001),
               (''name'', JStr ''Hagrid's - Single Rider''),
               (''is_open'', JBool True),
               (''wait_time'', JInt 0),
               (''last_updated'', JStr ''2025-12-30T14:30:00.000Z'')]])]"

section \<open>The store\<close>

text \<open>
  The store is an SQLite file with the four tables of \<open>init_database\<close>. Its engine is
  not part of the repository; the statements the repository runs are modelled after
  SQLite's documented behaviour: \<open>INTEGER PRIMARY KEY\<close> columns are the row id,
  \<open>INSERT OR IGNORE\<close> skips a row that violates \<open>NOT NULL\<close> or the primary key, and a
  foreign key violation aborts every insert, since \<open>get_connection\<close> turns foreign keys
  on for each connection. The model starts from an initialised store; a store that cannot
  be opened or written is outside it.
\<close>

datatype sqlval = SNull | SInt int | SText string

definition int64 :: "int \<Rightarrow> bool" where
  "int64 i = (- (2 ^ 63) \<le> i \<and> i < 2 ^ 63)"

text \<open>
  Binding a Python value to a statement parameter: \<open>None\<close> is \<open>NULL\<close>, a boolean is
  0 or 1, an integer must fit 64 bits, and lists and dictionaries are refused.
\<close>

fun bind_param :: "json \<Rightarrow> error + sqlval" where
  "bind_param JNull = Inr SNull"
| "bind_param (JBool b) = Inr (SInt (if b then 1 else 0))"
| "bind_param (JInt i) = (if int64 i then Inr (SInt i) else Inl OverflowError)"
| "bind_param (JStr s) = Inr (SText s)"
| "bind_param (JArr xs) = Inl ProgrammingError"
| "bind_param (JObj kvs) = Inl ProgrammingError"

subsection \<open>Timestamps\<close>

text \<open>
  A Python \<open>datetime\<close>. \<open>weekday\<close> is the standard library's: the proleptic Gregorian
  ordinal of the date, plus 6, modulo 7.
\<close>

record datetime =
  dt_year :: int
  dt_month :: int
  dt_day :: int
  dt_hour :: int
  dt_minute :: int
  dt_second :: int
  dt_microsecond :: int

definition is_leap :: "int \<Rightarrow> bool" where
  "is_leap y = (y mod 4 = 0 \<and> (y mod 100 \<noteq> 0 \<or> y mod 400 = 0))"

definition days_before_year :: "int \<Rightarrow> int" where
  "days_before_year year =
     (let y = year - 1 in y * 365 + y div 4 - y div 100 + y div 400)"

definition days_in_month :: "int \<Rightarrow> int \<Rightarrow> int" where
  "days_in_month year month =
     (if month = 2 \<and> is_leap year then 29
      else [31, 28, 31, 30, 31, 30, 31, 31, 30, 31, 30, 31] ! nat (month - 1))"

definition days_before_month :: "int \<Rightarrow> int \<Rightarrow> int" where
  "days_before_month year month =
     [0, 31, 59, 90, 120, 151, 181, 212, 243, 273, 304, 334] ! nat (month - 1)
     + (if month > 2 \<and> is_leap year then 1 else 0)"

definition toordinal :: "datetime \<Rightarrow> int" where
  "toordinal t =
     days_before_year (dt_year t) + days_before_month (dt_year t) (dt_month t) + dt_day t"

definition weekday :: "datetime \<Rightarrow> int" where
  "weekday t = (toordinal t + 6) mod 7"

text \<open>The values the \<open>datetime\<close> constructor accepts.\<close>

definition valid_datetime :: "datetime \<Rightarrow> bool" where
  "valid_datetime t =
     (1 \<le> dt_year t \<and> dt_year t \<le> 9999
      \<and> 1 \<le> dt_month t \<and> dt_month t \<le> 12
      \<and> 1 \<le> dt_day t \<and> dt_day t \<le> days_in_month (dt_year t) (dt_month t)
      \<and> 0 \<le> dt_hour t \<and> dt_hour t \<le> 23
      \<and> 0 \<le> dt_minute t \<and> dt_minute t \<le> 59
      \<and> 0 \<le> dt_second t \<and> dt_second t \<le> 59
      \<and> 0 \<le> dt_microsecond t \<and> dt_microsecond t \<le> 999999)"

subsection \<open>Tables\<close>

text \<open>
  A table is the list of its rows in insertion order. A key column holds the row id; the
  other columns hold the bound value (the storage class that column affinity gives a
  stored value is not modelled, except where it decides a key comparison). The three
  derived columns of \<open>wait_times\<close> are kept as Python computes them.
\<close>

record park_row =
  pk_id :: int
  pk_name :: sqlval

record land_row =
  ld_id :: int
  ld_park_id :: sqlval
  ld_name :: sqlval

record ride_row =
  rd_id :: int
  rd_land_id :: sqlval
  rd_park_id :: sqlval
  rd_name :: sqlval

record wait_row =
  wt_id :: int
  wt_ride_id :: sqlval
  wt_wait_time :: sqlval
  wt_is_open :: sqlval
  wt_collected_at :: datetime
  wt_api_last_updated :: sqlval
  wt_day_of_week :: int
  wt_hour :: int
  wt_is_weekend :: bool

record database =
  parks :: "park_row list"
  lands :: "land_row list"
  rides :: "ride_row list"
  wait_times :: "wait_row list"
  wait_times_seq :: int

subsection \<open>Statements\<close>

text \<open>
  SQLite converts a text that reads as an integer when it is stored in an \<open>INTEGER\<close>
  column. That reading is a parameter \<open>cv\<close> of the model: \<open>cv s\<close> is the integer the
  text \<open>s\<close> converts to, if any.
\<close>

type_synonym coercion = "string \<Rightarrow> int option"

definition new_rowid :: "int list \<Rightarrow> int" where
  "new_rowid ids = (if ids = [] then 1 else Max (set ids) + 1)"

text \<open>
  The row id of a new row: \<open>NULL\<close> takes the next free id (one more than the largest
  id of the table, which is taken to be below the largest 64-bit integer), and a value
  that is no integer is a datatype mismatch, which no conflict clause ignores.
\<close>

fun rowid_value :: "coercion \<Rightarrow> int list \<Rightarrow> sqlval \<Rightarrow> error + int" where
  "rowid_value cv ids SNull = Inr (new_rowid ids)"
| "rowid_value cv ids (SInt i) = Inr i"
| "rowid_value cv ids (SText s) = (case cv s of Some i \<Rightarrow> Inr i | None \<Rightarrow> Inl IntegrityError)"

fun affinity_integer :: "coercion \<Rightarrow> sqlval \<Rightarrow> sqlval" where
  "affinity_integer cv (SText s) = (case cv s of Some i \<Rightarrow> SInt i | None \<Rightarrow> SText s)"
| "affinity_integer cv v = v"

text \<open>A foreign key column is satisfied by \<open>NULL\<close> or by the id of a parent row.\<close>

fun references :: "int list \<Rightarrow> sqlval \<Rightarrow> bool" where
  "references ids SNull = True"
| "references ids (SInt i) = (i \<in> set ids)"
| "references ids (SText s) = False"

text \<open>\<open>INSERT OR IGNORE INTO parks (id, name) VALUES (?, ?)\<close>\<close>

definition sql_insert_park :: "coercion \<Rightarrow> sqlval \<Rightarrow> sqlval \<Rightarrow> database \<Rightarrow> error + database" where
  "sql_insert_park cv vid vname d =
     bindE (rowid_value cv (map pk_id (parks d)) vid) (\<lambda>i.
       if vname = SNull then Inr d
       else if i \<in> set (map pk_id (parks d)) then Inr d
       else Inr (d\<lparr>parks := parks d @ [\<lparr>pk_id = i, pk_name = vname\<rparr>]\<rparr>))"

text \<open>\<open>INSERT OR IGNORE INTO lands (id, park_id, name) VALUES (?, ?, ?)\<close>\<close>

definition sql_insert_land ::
  "coercion \<Rightarrow> sqlval \<Rightarrow> sqlval \<Rightarrow> sqlval \<Rightarrow> database \<Rightarrow> error + database" where
  "sql_insert_land cv vid vpark vname d =
     bindE (rowid_value cv (map ld_id (lands d)) vid) (\<lambda>i.
       let p = affinity_integer cv vpark in
       if p = SNull \<or> vname = SNull then Inr d
       else if i \<in> set (map ld_id (lands d)) then Inr d
       else if \<not> references (map pk_id (parks d)) p then Inl IntegrityError
       else Inr (d\<lparr>lands := lands d @ [\<lparr>ld_id = i, ld_park_id = p, ld_name = vname\<rparr>]\<rparr>))"

text \<open>\<open>INSERT OR IGNORE INTO rides (id, land_id, park_id, name) VALUES (?, ?, ?, ?)\<close>\<close>

definition sql_insert_ride ::
  "coercion \<Rightarrow> sqlval \<Rightarrow> sqlval \<Rightarrow> sqlval \<Rightarrow> sqlval \<Rightarrow> database \<Rightarrow> error + database" where
  "sql_insert_ride cv vid vland vpark vname d =
     bindE (rowid_value cv (map rd_id (rides d)) vid) (\<lambda>i.
       let l = affinity_integer cv vland; p = affinity_integer cv vpark in
       if p = SNull \<or> vname = SNull then Inr d
       else if i \<in> set (map rd_id (rides d)) then Inr d
       else if \<not> references (map ld_id (lands d)) l
               \<or> \<not> references (map pk_id (parks d)) p then Inl IntegrityError
       else Inr (d\<lparr>rides := rides d @
               [\<lparr>rd_id = i, rd_land_id = l, rd_park_id = p, rd_name = vname\<rparr>]\<rparr>))"

text \<open>
  \<open>INSERT INTO wait_times (...) VALUES (?, ?, ?, ?, ?, ?, ?, ?)\<close>: a plain insert, so
  a \<open>NOT NULL\<close> violation aborts it too. The key is \<open>AUTOINCREMENT\<close>: one more than
  the largest id the table has ever held.
\<close>

definition sql_insert_wait_time ::
  "coercion \<Rightarrow> sqlval \<Rightarrow> sqlval \<Rightarrow> sqlval \<Rightarrow> datetime \<Rightarrow> sqlval \<Rightarrow> int \<Rightarrow> int \<Rightarrow> bool
     \<Rightarrow> database \<Rightarrow> error + database" where
  "sql_insert_wait_time cv vride vwait vopen collected_at vupdated day_of_week hour is_weekend d =
     (let r = affinity_integer cv vride;
          i = max (wait_times_seq d) (Max (set (0 # map wt_id (wait_times d)))) + 1 in
      if r = SNull \<or> vopen = SNull then Inl IntegrityError
      else if \<not> references (map rd_id (rides d)) r then Inl IntegrityError
      else Inr (d\<lparr>wait_times := wait_times d @
              [\<lparr>wt_id = i, wt_ride_id = r, wt_wait_time = vwait, wt_is_open = vopen,
                wt_collected_at = collected_at, wt_api_last_updated = vupdated,
                wt_day_of_week = day_of_week, wt_hour = hour, wt_is_weekend = is_weekend\<rparr>],
              wait_times_seq := i\<rparr>))"

subsection \<open>The functions of \<open>database.py\<close>\<close>

text \<open>
  The state of a run: the store, the requests sent so far, and a log of what the program
  did, in order. The log is there to state ordering properties; no function reads it.
\<close>

datatype event =
    Request int
  | Sleep nat
  | InsertPark json json
  | InsertLand json json json
  | InsertRide json json json json
  | InsertWaitTime json json json datetime json
  | PrintStatus nat nat nat

record world =
  db :: database
  trace :: "event list"
  requests :: nat

definition logged :: "event \<Rightarrow> world \<Rightarrow> world" where
  "logged ev w = w\<lparr>trace := trace w @ [ev]\<rparr>"

text \<open>
  Committing a statement's result. A statement that raises leaves the store as it was,
  and the exception leaves the function.
\<close>

fun commit :: "world \<Rightarrow> error + database \<Rightarrow> (error + unit) \<times> world" where
  "commit w (Inl e) = (Inl e, w)"
| "commit w (Inr d) = (Inr (), w\<lparr>db := d\<rparr>)"

definition insert_park :: "coercion \<Rightarrow> json \<Rightarrow> json \<Rightarrow> world \<Rightarrow> (error + unit) \<times> world" where
  "insert_park cv park_id name w =
     commit (logged (InsertPark park_id name) w)
       (bindE (bind_param park_id) (\<lambda>a.
        bindE (bind_param name) (\<lambda>b.
        sql_insert_park cv a b (db w))))"

definition insert_land ::
  "coercion \<Rightarrow> json \<Rightarrow> json \<Rightarrow> json \<Rightarrow> world \<Rightarrow> (error + unit) \<times> world" where
  "insert_land cv land_id park_id name w =
     commit (logged (InsertLand land_id park_id name) w)
       (bindE (bind_param land_id) (\<lambda>a.
        bindE (bind_param park_id) (\<lambda>b.
        bindE (bind_param name) (\<lambda>c.
        sql_insert_land cv a b c (db w)))))"

text \<open>The parameters are bound in the order of the statement: id, land, park, name.\<close>

definition insert_ride ::
  "coercion \<Rightarrow> json \<Rightarrow> json \<Rightarrow> json \<Rightarrow> json \<Rightarrow> world \<Rightarrow> (error + unit) \<times> world" where
  "insert_ride cv ride_id park_id name land_id w =
     commit (logged (InsertRide ride_id park_id name land_id) w)
       (bindE (bind_param ride_id) (\<lambda>a.
        bindE (bind_param land_id) (\<lambda>b.
        bindE (bind_param park_id) (\<lambda>c.
        bindE (bind_param name) (\<lambda>d.
        sql_insert_ride cv a b c d (db w))))))"

definition insert_wait_time ::
  "coercion \<Rightarrow> json \<Rightarrow> json \<Rightarrow> json \<Rightarrow> datetime \<Rightarrow> json \<Rightarrow> world \<Rightarrow> (error + unit) \<times> world" where
  "insert_wait_time cv ride_id wait_time is_open collected_at api_last_updated w =
     (let day_of_week = weekday collected_at;
          hour = dt_hour collected_at;
          is_weekend = (day_of_week \<ge> 5)
      in commit (logged (InsertWaitTime ride_id wait_time is_open collected_at api_last_updated) w)
           (bindE (bind_param ride_id) (\<lambda>a.
            bindE (bind_param wait_time) (\<lambda>b.
            bindE (bind_param is_open) (\<lambda>c.
            bindE (bind_param api_last_updated) (\<lambda>d.
            sql_insert_wait_time cv a b c collected_at d day_of_week hour is_weekend (db w)))))))"

definition get_ride_count :: "world \<Rightarrow> nat" where
  "get_ride_count w = length (rides (db w))"

definition get_wait_time_count :: "world \<Rightarrow> nat" where
  "get_wait_time_count w = length (wait_times (db w))"

text \<open>An optional integer argument: \<open>None\<close> or an integer that fits 64 bits.\<close>

fun opt_int :: "json \<Rightarrow> bool" where
  "opt_int JNull = True"
| "opt_int (JInt k) = int64 k"
| "opt_int _ = False"

subsection \<open>Sample states\<close>

definition no_text_keys :: coercion where
  "no_text_keys s = None"

definition empty_database :: database where
  "empty_database =
     \<lparr>parks = [], lands = [], rides = [], wait_times = [], wait_times_seq = 0\<rparr>"

definition start :: world where
  "start = \<lparr>db = empty_database, trace = [], requests = 0\<rparr>"

text \<open>A store that holds park 64, its land 100 and the ride 1001 of that land.\<close>

definition sample_database :: database where
  "sample_database =
     \<lparr>parks = [\<lparr>pk_id = 64, pk_name = SText ''Islands of Adventure''\<rparr>],
      lands = [\<lparr>ld_id = 100, ld_park_id = SInt 64,
                ld_name = SText ''The Wizarding World of Harry Potter''\<rparr>],
      rides = [\<lparr>rd_id = 1001, rd_land_id = SInt 100, rd_park_id = SInt 64,
                rd_name = SText ''Hagrid's Magical Creatures''\<rparr>],
      wait_times = [], wait_times_seq = 0\<rparr>"

definition sample_world :: world where
  "sample_world = \<lparr>db = sample_database, trace = [], requests = 0\<rparr>"

text \<open>The two timestamps of the repository's store tests.\<close>

definition monday_1430 :: datetime where
  "monday_1430 = \<lparr>dt_year = 2025, dt_month = 12, dt_day = 29, dt_hour = 14, dt_minute = 30,
     dt_second = 0, dt_microsecond = 0\<rparr>"

definition saturday_noon :: datetime where
  "saturday_noon = \<lparr>dt_year = 2025, dt_month = 12, dt_day = 27, dt_hour = 12, dt_minute = 0,
     dt_second = 0, dt_microsecond = 0\<rparr>"

section \<open>The collector\<close>

subsection \<open>Configuration\<close>

definition PARKS :: "(int \<times> string) list" where
  "PARKS = [(64, ''Islands of Adventure''),
            (65, ''Universal Studios Florida''),
            (334, ''Epic Universe'')]"

definition MAX_RETRIES :: nat where
  "MAX_RETRIES = 3"

subsection \<open>The environment of a run\<close>

text \<open>
  What one HTTP request can do: answer with a decoded body, or raise. The three handlers
  of \<open>fetch_park_data\<close> catch \<open>Timeout\<close>, \<open>HTTPError\<close> (a status of 400 or above) and every
  other \<open>RequestException\<close>; any other exception leaves the function.
\<close>

datatype attempt =
    Response json
  | Timeout
  | HTTPError
  | RequestException
  | OtherException

fun caught :: "attempt \<Rightarrow> bool" where
  "caught Timeout = True"
| "caught HTTPError = True"
| "caught RequestException = True"
| "caught _ = False"

text \<open>
  The environment gives the outcome of the \<open>n\<close>-th request of the run for a park id, the
  store's reading of texts as integers, and the clock.
\<close>

record env =
  http_get :: "nat \<Rightarrow> int \<Rightarrow> attempt"
  text_key :: coercion
  now :: datetime

text \<open>Results that come with the state they leave behind.\<close>

fun bindW :: "(error + 'a) \<times> world \<Rightarrow> ('a \<Rightarrow> world \<Rightarrow> (error + 'b) \<times> world)
    \<Rightarrow> (error + 'b) \<times> world" where
  "bindW (Inl e, w) f = (Inl e, w)"
| "bindW (Inr x, w) f = f x w"

subsection \<open>\<open>fetch_park_data\<close>\<close>

definition sent :: "int \<Rightarrow> world \<Rightarrow> world" where
  "sent park_id w = (logged (Request park_id) w)\<lparr>requests := Suc (requests w)\<rparr>"

text \<open>
  The loop \<open>for attempt in range(MAX_RETRIES)\<close>. A body that is JSON \<open>null\<close> decodes to
  \<open>None\<close>, the value that the function also returns when the loop runs out.
\<close>

fun fetch_attempts :: "env \<Rightarrow> int \<Rightarrow> nat list \<Rightarrow> world \<Rightarrow> (error + json) \<times> world" where
  "fetch_attempts E park_id [] w = (Inr JNull, w)"
| "fetch_attempts E park_id (attempt # rest) w =
     (let w1 = sent park_id w in
      case http_get E (requests w) park_id of
        Response body \<Rightarrow> (Inr body, w1)
      | OtherException \<Rightarrow> (Inl OtherError, w1)
      | _ \<Rightarrow> fetch_attempts E park_id rest
               (if attempt < MAX_RETRIES - 1 then logged (Sleep (2 ^ attempt)) w1 else w1))"

definition fetch_park_data :: "env \<Rightarrow> int \<Rightarrow> world \<Rightarrow> (error + json) \<times> world" where
  "fetch_park_data E park_id w = fetch_attempts E park_id [0..<MAX_RETRIES] w"

subsection \<open>\<open>collect_park\<close>\<close>

text \<open>The loop \<open>for ride in rides\<close>, with the counter \<open>records_inserted\<close>.\<close>

fun collect_rides ::
  "env \<Rightarrow> int \<Rightarrow> datetime \<Rightarrow> ride list \<Rightarrow> int \<Rightarrow> world \<Rightarrow> (error + int) \<times> world" where
  "collect_rides E park_id collected_at [] records_inserted w = (Inr records_inserted, w)"
| "collect_rides E park_id collected_at (r # rs) records_inserted w =
     bindW (if r_land_id r \<noteq> JNull
            then insert_land (text_key E) (r_land_id r) (JInt park_id) (r_land_name r) w
            else (Inr (), w)) (\<lambda>_ w1.
     bindW (insert_ride (text_key E) (r_id r) (JInt park_id) (r_name r) (r_land_id r) w1) (\<lambda>_ w2.
     bindW (insert_wait_time (text_key E) (r_id r) (r_wait_time r) (r_is_open r) collected_at
              (r_last_updated r) w2) (\<lambda>_ w3.
     collect_rides E park_id collected_at rs (records_inserted + 1) w3)))"

definition collect_park ::
  "env \<Rightarrow> int \<Rightarrow> string \<Rightarrow> datetime \<Rightarrow> world \<Rightarrow> (error + int) \<times> world" where
  "collect_park E park_id park_name collected_at w =
     bindW (fetch_park_data E park_id w) (\<lambda>data w1.
       if data = JNull then (Inr (- 1), w1)
       else
         bindW (insert_park (text_key E) (JInt park_id) (JStr park_name) w1) (\<lambda>_ w2.
           case parse_rides data park_id of
             Inl e \<Rightarrow> (Inl e, w2)
           | Inr rs \<Rightarrow> collect_rides E park_id collected_at rs 0 w2))"

subsection \<open>\<open>collect_all_parks\<close> and \<open>main\<close>\<close>

text \<open>On an initialised store \<open>CREATE TABLE IF NOT EXISTS\<close> changes nothing.\<close>

definition init_database :: "world \<Rightarrow> world" where
  "init_database w = w"

text \<open>The loop over \<open>PARKS.items()\<close>; \<open>results\<close> is the dictionary from park name to count.\<close>

fun parks_loop ::
  "env \<Rightarrow> datetime \<Rightarrow> (int \<times> string) list \<Rightarrow> (string \<times> int) list \<Rightarrow> world
     \<Rightarrow> (error + (string \<times> int) list) \<times> world" where
  "parks_loop E collected_at [] results w = (Inr results, w)"
| "parks_loop E collected_at ((park_id, park_name) # ps) results w =
     bindW (collect_park E park_id park_name collected_at w) (\<lambda>records w1.
       parks_loop E collected_at ps (AList.update park_name records results) w1)"

definition collect_all_parks :: "env \<Rightarrow> world \<Rightarrow> (error + (string \<times> int) list) \<times> world" where
  "collect_all_parks E w =
     (let collected_at = now E in parks_loop E collected_at PARKS [] (init_database w))"

definition check_status :: "world \<Rightarrow> world" where
  "check_status w =
     (let w1 = init_database w
      in logged (PrintStatus (length PARKS) (get_ride_count w1) (get_wait_time_count w1)) w1)"

text \<open>
  \<open>main\<close> with the value of the \<open>--check\<close> flag. \<open>Inr\<close> is the exit status: 1 from
  \<open>sys.exit(1)\<close>, 0 when \<open>main\<close> returns; \<open>Inl\<close> is an exception that nothing catches.
\<close>

definition main :: "env \<Rightarrow> bool \<Rightarrow> world \<Rightarrow> (error + int) \<times> world" where
  "main E check w =
     (if check then (Inr 0, check_status w)
      else bindW (collect_all_parks E w) (\<lambda>results w1.
             if list_ex (\<lambda>r. r < 0) (map snd results) then (Inr 1, w1) else (Inr 0, w1)))"


section \<open>Notions used in the statements\<close>

subsection \<open>Sample environments\<close>

text \<open>A network on which every request times out.\<close>

definition offline :: env where
  "offline = \<lparr>http_get = (\<lambda>n park_id. Timeout), text_key = no_text_keys, now = monday_1430\<rparr>"

text \<open>A network whose answer to every request is the body \<open>null\<close>.\<close>

definition null_body :: env where
  "null_body = \<lparr>http_get = (\<lambda>n park_id. Response JNull), text_key = no_text_keys,
                 now = monday_1430\<rparr>"

subsection \<open>Waits\<close>

text \<open>The durations of the waits in a log, in order.\<close>

fun sleeps :: "event list \<Rightarrow> nat list" where
  "sleeps [] = []"
| "sleeps (Sleep n # evs) = n # sleeps evs"
| "sleeps (_ # evs) = sleeps evs"

subsection \<open>Store calls and their order\<close>

text \<open>The store calls that one parsed ride gives rise to, and those of a whole park.\<close>

definition ride_calls :: "int \<Rightarrow> datetime \<Rightarrow> ride \<Rightarrow> event list" where
  "ride_calls park_id collected_at r =
     (if r_land_id r \<noteq> JNull
      then [InsertLand (r_land_id r) (JInt park_id) (r_land_name r)] else [])
     @ [InsertRide (r_id r) (JInt park_id) (r_name r) (r_land_id r),
        InsertWaitTime (r_id r) (r_wait_time r) (r_is_open r) collected_at (r_last_updated r)]"

definition park_calls :: "int \<Rightarrow> string \<Rightarrow> datetime \<Rightarrow> ride list \<Rightarrow> event list" where
  "park_calls park_id park_name collected_at rs =
     InsertPark (JInt park_id) (JStr park_name)
     # concat (map (ride_calls park_id collected_at) rs)"

text \<open>
  Foreign-key discipline of a sequence of calls: when a land is upserted its park has been
  upserted before, when a ride is upserted its park and, if it has one, its land have
  been, and when a reading is recorded its ride has been.
\<close>

fun park_seen :: "json \<Rightarrow> event list \<Rightarrow> bool" where
  "park_seen p [] = False"
| "park_seen p (InsertPark p' n # evs) = (p' = p \<or> park_seen p evs)"
| "park_seen p (_ # evs) = park_seen p evs"

fun land_seen :: "json \<Rightarrow> event list \<Rightarrow> bool" where
  "land_seen l [] = False"
| "land_seen l (InsertLand l' p n # evs) = (l' = l \<or> land_seen l evs)"
| "land_seen l (_ # evs) = land_seen l evs"

fun ride_seen :: "json \<Rightarrow> event list \<Rightarrow> bool" where
  "ride_seen r [] = False"
| "ride_seen r (InsertRide r' p n l # evs) = (r' = r \<or> ride_seen r evs)"
| "ride_seen r (_ # evs) = ride_seen r evs"

fun parents_seen :: "event list \<Rightarrow> event \<Rightarrow> bool" where
  "parents_seen seen (InsertLand l p n) = park_seen p seen"
| "parents_seen seen (InsertRide r p n l) = (park_seen p seen \<and> (l = JNull \<or> land_seen l seen))"
| "parents_seen seen (InsertWaitTime r wt io t lu) = ride_seen r seen"
| "parents_seen seen _ = True"

fun parents_first :: "event list \<Rightarrow> event list \<Rightarrow> bool" where
  "parents_first seen [] = True"
| "parents_first seen (c # cs) = (parents_seen seen c \<and> parents_first (seen @ [c]) cs)"

text \<open>A network that answers park 64 with the sample response and the others with \<open>{}\<close>.\<close>

definition online :: env where
  "online = \<lparr>http_get = (\<lambda>n park_id. if park_id = 64 then Response sample_response
                                     else Response (JObj [])),
              text_key = no_text_keys, now = monday_1430\<rparr>"

subsection \<open>Keys and rows\<close>

text \<open>The integer key that a bound value denotes in an \<open>INTEGER\<close> key column, if any.\<close>

fun key_of :: "coercion \<Rightarrow> sqlval \<Rightarrow> int option" where
  "key_of cv SNull = None"
| "key_of cv (SInt i) = Some i"
| "key_of cv (SText s) = cv s"

definition ride_row_exists :: "coercion \<Rightarrow> sqlval \<Rightarrow> database \<Rightarrow> bool" where
  "ride_row_exists cv v d =
     (case key_of cv v of None \<Rightarrow> False | Some i \<Rightarrow> i \<in> set (map rd_id (rides d)))"

text \<open>A network whose answer for every park is one top-level ride without a name.\<close>

definition nameless :: env where
  "nameless = \<lparr>http_get = (\<lambda>n park_id. Response (JObj [(''rides'', JArr [JObj [(''id'', JInt 7)]])])),
                text_key = no_text_keys, now = monday_1430\<rparr>"

definition nameless_ride :: ride where
  "nameless_ride = \<lparr>r_id = JInt 7, r_name = JNull, r_is_open = JBool False,
     r_wait_time = JNull, r_last_updated = JNull, r_land_id = JNull, r_land_name = JNull,
     r_park_id = 64\<rparr>"

definition park_64_only :: database where
  "park_64_only = empty_database
     \<lparr>parks := [\<lparr>pk_id = 64, pk_name = SText ''Islands of Adventure''\<rparr>]\<rparr>"


subsection \<open>Missing keys\<close>










section \<open>Properties of \<open>parse_rides\<close>\<close>

lemma new_ride_dict:
  "is_dict x \<Longrightarrow> new_ride x lid lname pid = Inr (expected_ride lid lname pid x)"
  by (cases x) (simp_all add: expected_ride_def)

lemma rides_loop_dicts:
  "list_all is_dict xs \<Longrightarrow>
   rides_loop xs lid lname pid acc = Inr (acc @ map (expected_ride lid lname pid) xs)"
  by (induction xs arbitrary: acc) (simp_all add: new_ride_dict)

lemma has_rides_array_iter:
  "has_rides_array land \<Longrightarrow>
   py_iter (field land ''rides'' (JArr [])) = Inr (rides_of land)
   \<and> list_all is_dict (rides_of land)"
  by (cases land)
     (auto simp: rides_of_def dict_get_def split: option.splits json.splits)

lemma has_rides_array_get:
  "has_rides_array land \<Longrightarrow> py_get land k dflt = Inr (field land k dflt)"
  by (cases land) simp_all

lemma lands_loop_valid:
  "list_all has_rides_array ls \<Longrightarrow>
   lands_loop ls pid acc = Inr (acc @ concat (map (land_rides pid) ls))"
proof (induction ls arbitrary: acc)
  case Nil
  then show ?case by simp
next
  case (Cons land ls)
  from Cons.prems have land: "has_rides_array land" and rest: "list_all has_rides_array ls"
    by simp_all
  note rs = has_rides_array_iter [OF land]
  show ?case
    by (simp add: has_rides_array_get [OF land] rs rides_loop_dicts Cons.IH [OF rest]
        land_rides_def)
qed

lemma valid_response_lands:
  "valid_response resp \<Longrightarrow>
   py_get resp ''lands'' (JArr []) = Inr (field resp ''lands'' (JArr []))
   \<and> py_iter (field resp ''lands'' (JArr [])) = Inr (lands_of resp)
   \<and> list_all has_rides_array (lands_of resp)"
  by (cases resp)
     (auto simp: lands_of_def dict_get_def split: option.splits json.splits)

lemma valid_response_rides: "valid_response resp \<Longrightarrow> has_rides_array resp"
  by (cases resp) simp_all

lemma parse_rides_valid:
  assumes "valid_response resp"
  shows "parse_rides resp pid = Inr (expected_rides resp pid)"
proof -
  note ls = valid_response_lands [OF assms]
  have top: "has_rides_array resp"
    by (rule valid_response_rides [OF assms])
  note rs = has_rides_array_iter [OF top] has_rides_array_get [OF top]
  show ?thesis
    by (simp add: parse_rides_def ls rs lands_loop_valid rides_loop_dicts expected_rides_def)
qed

text \<open>
  Outside that shape the parser raises: a \<open>lands\<close> that is \<open>null\<close> cannot be iterated,
  and an array element that is no dictionary has no \<open>get\<close>.
\<close>

lemma parse_rides_raises:
  "parse_rides (JObj [(''lands'', JNull)]) park_id = Inl TypeError
   \<and> parse_rides (JObj [(''rides'', JArr [JInt 1])]) park_id = Inl AttributeError"
  by (simp add: parse_rides_def dict_get_def)

lemma length_expected_rides:
  "length (expected_rides resp pid) =
   sum_list (map (\<lambda>land. length (rides_of land)) (lands_of resp)) + length (rides_of resp)"
  by (simp add: expected_rides_def length_concat land_rides_def comp_def)

lemma list_all2_land_rides:
  "list_all2 (\<lambda>r (land, x). r = expected_ride (field land ''id'' JNull)
       (field land ''name'' JNull) pid x)
     (concat (map (land_rides pid) ls))
     (concat (map (\<lambda>land. map (Pair land) (rides_of land)) ls))"
proof (induction ls)
  case Nil
  show ?case by simp
next
  case (Cons land ls)
  have "list_all2 (\<lambda>r (land, x). r = expected_ride (field land ''id'' JNull)
       (field land ''name'' JNull) pid x)
     (land_rides pid land) (map (Pair land) (rides_of land))"
    by (simp add: land_rides_def list_all2_map1 list_all2_map2 list_all2_refl)
  with Cons.IH show ?case
    by (simp add: list_all2_appendI)
qed

lemma valid_sample_response: "valid_response sample_response"
  by (simp add: sample_response_def)

text \<open>
  C1. For a response of the documented shape, \<open>parse_rides\<close> returns a list whose
  length is the number of rides nested in the lands plus the number of top-level rides, an
  absent key counting as an empty array; the empty dictionary and a dictionary whose
  \<open>lands\<close> is the empty array give the empty list.
\<close>

theorem parse_rides_length:
  "(valid_response resp \<longrightarrow>
      (\<exists>rides. parse_rides resp park_id = Inr rides \<and>
         length rides =
           sum_list (map (\<lambda>land. length (rides_of land)) (lands_of resp))
           + length (rides_of resp)))
   \<and> parse_rides (JObj []) park_id = Inr []
   \<and> parse_rides (JObj [(''lands'', JArr [])]) park_id = Inr []"
proof (intro conjI impI)
  assume "valid_response resp"
  then show "\<exists>rides. parse_rides resp park_id = Inr rides \<and>
         length rides =
           sum_list (map (\<lambda>land. length (rides_of land)) (lands_of resp))
           + length (rides_of resp)"
    by (simp add: parse_rides_valid length_expected_rides)
next
  show "parse_rides (JObj []) park_id = Inr []"
    by (simp add: parse_rides_def dict_get_def)
next
  show "parse_rides (JObj [(''lands'', JArr [])]) park_id = Inr []"
    by (simp add: parse_rides_def dict_get_def)
qed

theorem parse_rides_length_witness:
  "valid_response sample_response
   \<and> (\<exists>rides. parse_rides sample_response 64 = Inr rides \<and> length rides = 4)
   \<and> parse_rides (JObj []) 64 = Inr []
   \<and> parse_rides (JObj [(''lands'', JArr [])]) 64 = Inr []"
proof -
  have count: "sum_list (map (\<lambda>land. length (rides_of land)) (lands_of sample_response))
      + length (rides_of sample_response) = 4"
    by (simp add: sample_response_def lands_of_def rides_of_def dict_get_def)
  from parse_rides_length [of sample_response 64] valid_sample_response count
  show ?thesis by simp
qed

text \<open>
  C4. For a response of the documented shape, the records of the rides nested in a land
  carry that land's \<open>id\<close> and \<open>name\<close> (null when the land has none), the records of
  the top-level rides carry null for both, and every record has the ride's \<open>is_open\<close>
  (false when the key is absent) and \<open>wait_time\<close> (null when absent).
\<close>

theorem parse_rides_fields:
  assumes "valid_response resp"
  shows "\<exists>nested alone. parse_rides resp park_id = Inr (nested @ alone)
     \<and> list_all2 (\<lambda>r (land, x).
           r_land_id r = field land ''id'' JNull
         \<and> r_land_name r = field land ''name'' JNull
         \<and> r_is_open r = field x ''is_open'' (JBool False)
         \<and> r_wait_time r = field x ''wait_time'' JNull)
         nested (land_ride_pairs resp)
     \<and> list_all2 (\<lambda>r x.
           r_land_id r = JNull
         \<and> r_land_name r = JNull
         \<and> r_is_open r = field x ''is_open'' (JBool False)
         \<and> r_wait_time r = field x ''wait_time'' JNull)
         alone (rides_of resp)"
proof -
  let ?nested = "concat (map (land_rides park_id) (lands_of resp))"
  let ?alone = "map (expected_ride JNull JNull park_id) (rides_of resp)"
  have "parse_rides resp park_id = Inr (?nested @ ?alone)"
    using parse_rides_valid [OF assms] by (simp add: expected_rides_def)
  moreover have "list_all2 (\<lambda>r (land, x).
           r_land_id r = field land ''id'' JNull
         \<and> r_land_name r = field land ''name'' JNull
         \<and> r_is_open r = field x ''is_open'' (JBool False)
         \<and> r_wait_time r = field x ''wait_time'' JNull)
         ?nested (land_ride_pairs resp)"
    unfolding land_ride_pairs_def
    by (rule list_all2_mono [OF list_all2_land_rides])
       (auto simp: expected_ride_def)
  moreover have "list_all2 (\<lambda>r x.
           r_land_id r = JNull
         \<and> r_land_name r = JNull
         \<and> r_is_open r = field x ''is_open'' (JBool False)
         \<and> r_wait_time r = field x ''wait_time'' JNull)
         ?alone (rides_of resp)"
    by (simp add: list_all2_map1 list_all2_refl expected_ride_def)
  ultimately show ?thesis by blast
qed

theorem parse_rides_fields_witness:
  "valid_response sample_response
   \<and> (\<exists>nested alone. parse_rides sample_response 64 = Inr (nested @ alone)
        \<and> map r_land_id nested = [JInt 100, JInt 100, JInt 101]
        \<and> map r_land_name nested =
            [JStr ''The Wizarding World of Harry Potter'',
             JStr ''The Wizarding World of Harry Potter'', JStr ''Jurassic Park'']
        \<and> map r_is_open nested = [JBool True, JBool True, JBool False]
        \<and> map r_wait_time nested = [JInt 120, JInt 45, JNull]
        \<and> map r_land_id alone = [JNull]
        \<and> map r_land_name alone = [JNull]
        \<and> map r_wait_time alone = [JInt 0])"
proof -
  from parse_rides_fields [OF valid_sample_response, of 64]
  obtain nested alone where
    p: "parse_rides sample_response 64 = Inr (nested @ alone)" and
    n: "list_all2 (\<lambda>r (land, x).
           r_land_id r = field land ''id'' JNull
         \<and> r_land_name r = field land ''name'' JNull
         \<and> r_is_open r = field x ''is_open'' (JBool False)
         \<and> r_wait_time r = field x ''wait_time'' JNull)
         nested (land_ride_pairs sample_response)" and
    a: "list_all2 (\<lambda>r x.
           r_land_id r = JNull
         \<and> r_land_name r = JNull
         \<and> r_is_open r = field x ''is_open'' (JBool False)
         \<and> r_wait_time r = field x ''wait_time'' JNull)
         alone (rides_of sample_response)"
    by blast
  from n have "map r_land_id nested = [JInt 100, JInt 100, JInt 101]
        \<and> map r_land_name nested =
            [JStr ''The Wizarding World of Harry Potter'',
             JStr ''The Wizarding World of Harry Potter'', JStr ''Jurassic Park'']
        \<and> map r_is_open nested = [JBool True, JBool True, JBool False]
        \<and> map r_wait_time nested = [JInt 120, JInt 45, JNull]"
    by (auto simp: land_ride_pairs_def sample_response_def lands_of_def rides_of_def
        dict_get_def list_all2_Cons2)
  moreover from a have "map r_land_id alone = [JNull]
        \<and> map r_land_name alone = [JNull]
        \<and> map r_wait_time alone = [JInt 0]"
    by (auto simp: sample_response_def rides_of_def dict_get_def list_all2_Cons2)
  ultimately show ?thesis
    using p valid_sample_response
    by (intro conjI exI [of _ alone] exI [of _ nested]) simp_all
qed

text \<open>
  C5. For a response of the documented shape, the list holds the rides of the lands
  first, land by land and ride by ride in the order of the response, and the top-level
  rides after them, in their order.
\<close>

theorem parse_rides_order:
  assumes "valid_response resp"
  shows "parse_rides resp park_id =
     Inr (concat (map (\<lambda>land.
              map (expected_ride (field land ''id'' JNull) (field land ''name'' JNull) park_id)
                (rides_of land))
            (lands_of resp))
          @ map (expected_ride JNull JNull park_id) (rides_of resp))"
  using parse_rides_valid [OF assms]
  by (simp add: expected_rides_def land_rides_def cong: map_cong)

theorem parse_rides_order_witness:
  "valid_response sample_response
   \<and> (\<exists>rides. parse_rides sample_response 64 = Inr rides
        \<and> map r_id rides = [JInt 1001, JInt 1002, JInt 1003, JInt 2001]
        \<and> map r_land_id rides = [JInt 100, JInt 100, JInt 101, JNull])"
  using parse_rides_order [OF valid_sample_response, of 64] valid_sample_response
  by (simp add: sample_response_def lands_of_def rides_of_def dict_get_def expected_ride_def)

section \<open>Properties of the store\<close>

lemma bindE_Inr: "bindE m f = Inr y \<longleftrightarrow> (\<exists>x. m = Inr x \<and> f x = Inr y)"
  by (cases m) simp_all

lemma commit_Inr: "commit w r = (Inr u, w') \<longleftrightarrow> (\<exists>d. r = Inr d \<and> w' = w\<lparr>db := d\<rparr>)"
  by (cases r) auto

lemma filter_absent: "i \<notin> set (map f xs) \<Longrightarrow> filter (\<lambda>r. f r = i) xs = []"
  by (induction xs) auto

lemma db_logged [simp]: "db (logged ev w) = db w"
  by (simp add: logged_def)

lemma trace_logged [simp]: "trace (logged ev w) = trace w @ [ev]"
  by (simp add: logged_def)

lemma requests_logged [simp]: "requests (logged ev w) = requests w"
  by (simp add: logged_def)

lemma opt_int_bind: "opt_int j \<Longrightarrow> \<exists>v. bind_param j = Inr v \<and> (\<forall>s. v \<noteq> SText s)"
  by (cases j) simp_all

subsection \<open>Upserts\<close>

lemma insert_park_twice:
  assumes "int64 i" and "i \<notin> set (map pk_id (parks (db w)))"
  shows "\<exists>w1 w2. insert_park cv (JInt i) (JStr n) w = (Inr (), w1)
      \<and> insert_park cv (JInt i) (JStr n') w1 = (Inr (), w2)
      \<and> db w2 = db w1
      \<and> filter (\<lambda>r. pk_id r = i) (parks (db w2)) = [\<lparr>pk_id = i, pk_name = SText n\<rparr>]"
  using assms
  by (simp add: insert_park_def sql_insert_park_def filter_absent)

lemma insert_land_twice:
  assumes "int64 i" and "int64 p" and "int64 p'"
    and "i \<notin> set (map ld_id (lands (db w)))" and "p \<in> set (map pk_id (parks (db w)))"
  shows "\<exists>w1 w2. insert_land cv (JInt i) (JInt p) (JStr n) w = (Inr (), w1)
      \<and> insert_land cv (JInt i) (JInt p') (JStr n') w1 = (Inr (), w2)
      \<and> db w2 = db w1
      \<and> filter (\<lambda>r. ld_id r = i) (lands (db w2))
          = [\<lparr>ld_id = i, ld_park_id = SInt p, ld_name = SText n\<rparr>]"
  using assms
  by (simp add: insert_land_def sql_insert_land_def filter_absent)

lemma insert_ride_twice:
  assumes "int64 i" and "int64 p" and "int64 p'" and "opt_int l" and "opt_int l'"
    and "i \<notin> set (map rd_id (rides (db w)))" and "p \<in> set (map pk_id (parks (db w)))"
    and "l = JNull \<or> (\<exists>k. l = JInt k \<and> k \<in> set (map ld_id (lands (db w))))"
  shows "\<exists>w1 w2 v. insert_ride cv (JInt i) (JInt p) (JStr n) l w = (Inr (), w1)
      \<and> insert_ride cv (JInt i) (JInt p') (JStr n') l' w1 = (Inr (), w2)
      \<and> db w2 = db w1
      \<and> bind_param l = Inr v
      \<and> filter (\<lambda>r. rd_id r = i) (rides (db w2))
          = [\<lparr>rd_id = i, rd_land_id = v, rd_park_id = SInt p, rd_name = SText n\<rparr>]"
proof -
  from \<open>opt_int l'\<close> obtain v' where v': "bind_param l' = Inr v'"
    using opt_int_bind by blast
  from assms(8) show ?thesis
  proof
    assume "l = JNull"
    with assms v' show ?thesis
      by (simp add: insert_ride_def sql_insert_ride_def filter_absent)
  next
    assume "\<exists>k. l = JInt k \<and> k \<in> set (map ld_id (lands (db w)))"
    then obtain k where "l = JInt k" "k \<in> set (map ld_id (lands (db w)))" by blast
    with assms v' show ?thesis
      by (simp add: insert_ride_def sql_insert_ride_def filter_absent)
  qed
qed

lemma weekday_monday_1430: "weekday monday_1430 = 0"
  by (simp add: monday_1430_def weekday_def toordinal_def days_before_year_def
      days_before_month_def is_leap_def)

lemma weekday_saturday_noon: "weekday saturday_noon = 5"
  by (simp add: saturday_noon_def weekday_def toordinal_def days_before_year_def
      days_before_month_def is_leap_def)

text \<open>
  C3. Upserting a park, a land or a ride whose id is not yet in its table, and upserting
  the same id again with other attribute values, leaves exactly one row for the id, with
  the values of the first call; the second call returns normally and leaves the store as
  it was. (Ids are integers that fit 64 bits, names are strings, and the park and land
  that the first call refers to exist.)
\<close>

theorem upsert_twice_keeps_first:
  "(int64 i \<and> i \<notin> set (map pk_id (parks (db w))) \<longrightarrow>
      (\<exists>w1 w2. insert_park cv (JInt i) (JStr n) w = (Inr (), w1)
         \<and> insert_park cv (JInt i) (JStr n') w1 = (Inr (), w2)
         \<and> db w2 = db w1
         \<and> filter (\<lambda>r. pk_id r = i) (parks (db w2)) = [\<lparr>pk_id = i, pk_name = SText n\<rparr>]))
   \<and> (int64 j \<and> int64 p \<and> int64 p'
       \<and> j \<notin> set (map ld_id (lands (db u))) \<and> p \<in> set (map pk_id (parks (db u))) \<longrightarrow>
      (\<exists>u1 u2. insert_land cv (JInt j) (JInt p) (JStr m) u = (Inr (), u1)
         \<and> insert_land cv (JInt j) (JInt p') (JStr m') u1 = (Inr (), u2)
         \<and> db u2 = db u1
         \<and> filter (\<lambda>r. ld_id r = j) (lands (db u2))
             = [\<lparr>ld_id = j, ld_park_id = SInt p, ld_name = SText m\<rparr>]))
   \<and> (int64 k \<and> int64 q \<and> int64 q' \<and> opt_int l \<and> opt_int l'
       \<and> k \<notin> set (map rd_id (rides (db v))) \<and> q \<in> set (map pk_id (parks (db v)))
       \<and> (l = JNull \<or> (\<exists>a. l = JInt a \<and> a \<in> set (map ld_id (lands (db v))))) \<longrightarrow>
      (\<exists>v1 v2 x. insert_ride cv (JInt k) (JInt q) (JStr e) l v = (Inr (), v1)
         \<and> insert_ride cv (JInt k) (JInt q') (JStr e') l' v1 = (Inr (), v2)
         \<and> db v2 = db v1
         \<and> bind_param l = Inr x
         \<and> filter (\<lambda>r. rd_id r = k) (rides (db v2))
             = [\<lparr>rd_id = k, rd_land_id = x, rd_park_id = SInt q, rd_name = SText e\<rparr>]))"
  using insert_park_twice [of i w cv n n'] insert_land_twice [of j p p' u cv m m']
    insert_ride_twice [of k q q' l l' v cv e e']
  by blast

theorem upsert_twice_keeps_first_witness:
  "(\<exists>w1 w2. insert_park no_text_keys (JInt 64) (JStr ''Islands of Adventure'') start = (Inr (), w1)
      \<and> insert_park no_text_keys (JInt 64) (JStr ''Renamed'') w1 = (Inr (), w2)
      \<and> db w2 = db w1
      \<and> filter (\<lambda>r. pk_id r = 64) (parks (db w2))
          = [\<lparr>pk_id = 64, pk_name = SText ''Islands of Adventure''\<rparr>])
   \<and> (\<exists>u1 u2. insert_land no_text_keys (JInt 101) (JInt 64) (JStr ''Jurassic Park'') sample_world
          = (Inr (), u1)
      \<and> insert_land no_text_keys (JInt 101) (JInt 65) (JStr ''Renamed'') u1 = (Inr (), u2)
      \<and> db u2 = db u1
      \<and> filter (\<lambda>r. ld_id r = 101) (lands (db u2))
          = [\<lparr>ld_id = 101, ld_park_id = SInt 64, ld_name = SText ''Jurassic Park''\<rparr>])
   \<and> (\<exists>v1 v2. insert_ride no_text_keys (JInt 1002) (JInt 64) (JStr ''Forbidden Journey'')
          (JInt 100) sample_world = (Inr (), v1)
      \<and> insert_ride no_text_keys (JInt 1002) (JInt 65) (JStr ''Renamed'') JNull v1 = (Inr (), v2)
      \<and> db v2 = db v1
      \<and> filter (\<lambda>r. rd_id r = 1002) (rides (db v2))
          = [\<lparr>rd_id = 1002, rd_land_id = SInt 100, rd_park_id = SInt 64,
              rd_name = SText ''Forbidden Journey''\<rparr>])"
  using upsert_twice_keeps_first [where i = 64 and w = start and cv = no_text_keys
      and n = "''Islands of Adventure''" and n' = "''Renamed''"
      and j = 101 and p = 64 and p' = 65 and u = sample_world
      and m = "''Jurassic Park''" and m' = "''Renamed''"
      and k = 1002 and q = 64 and q' = 65 and l = "JInt 100" and l' = JNull
      and v = sample_world and e = "''Forbidden Journey''" and e' = "''Renamed''"]
  by (simp add: int64_def start_def empty_database_def sample_world_def sample_database_def)

subsection \<open>Readings\<close>

lemma insert_wait_time_row:
  assumes "insert_wait_time cv ride_id wait_time is_open collected_at api_last_updated w
      = (Inr (), w')"
  shows "\<exists>row. wait_times (db w') = wait_times (db w) @ [row]
      \<and> wt_collected_at row = collected_at
      \<and> wt_day_of_week row = weekday collected_at
      \<and> wt_hour row = dt_hour collected_at
      \<and> wt_is_weekend row = (weekday collected_at \<ge> 5)"
  using assms
  by (auto simp: insert_wait_time_def sql_insert_wait_time_def Let_def commit_Inr bindE_Inr
      split: if_splits)

lemma weekday_range: "0 \<le> weekday t \<and> weekday t \<le> 6"
  by (simp add: weekday_def)

text \<open>
  C6. A row written by \<open>insert_wait_time\<close> has its three derived fields computed from
  \<open>collected_at\<close> alone: \<open>day_of_week\<close> is the weekday counted from Monday as 0,
  \<open>hour\<close> is the hour of the timestamp, between 0 and 23, and \<open>is_weekend\<close> holds
  exactly when \<open>day_of_week\<close> is 5 or 6. Monday 29 December 2025, 14:30, has weekday 0 and
  hour 14; Saturday 27 December 2025 has weekday 5.
\<close>

theorem insert_wait_time_derived_fields:
  "(insert_wait_time cv ride_id wait_time is_open collected_at api_last_updated w
      = (Inr (), w') \<longrightarrow>
     (\<exists>row. wait_times (db w') = wait_times (db w) @ [row]
        \<and> wt_collected_at row = collected_at
        \<and> wt_day_of_week row = weekday collected_at
        \<and> 0 \<le> wt_day_of_week row \<and> wt_day_of_week row \<le> 6
        \<and> wt_hour row = dt_hour collected_at
        \<and> (valid_datetime collected_at \<longrightarrow> 0 \<le> wt_hour row \<and> wt_hour row \<le> 23)
        \<and> wt_is_weekend row = (wt_day_of_week row = 5 \<or> wt_day_of_week row = 6)))
   \<and> weekday monday_1430 = 0 \<and> dt_hour monday_1430 = 14
   \<and> weekday saturday_noon = 5"
proof (intro conjI impI)
  assume "insert_wait_time cv ride_id wait_time is_open collected_at api_last_updated w
      = (Inr (), w')"
  from insert_wait_time_row [OF this] obtain row where
    row: "wait_times (db w') = wait_times (db w) @ [row]"
      "wt_collected_at row = collected_at"
      "wt_day_of_week row = weekday collected_at"
      "wt_hour row = dt_hour collected_at"
      "wt_is_weekend row = (weekday collected_at \<ge> 5)"
    by blast
  have range: "0 \<le> weekday collected_at \<and> weekday collected_at \<le> 6"
    by (rule weekday_range)
  have weekend: "(weekday collected_at \<ge> 5)
      = (weekday collected_at = 5 \<or> weekday collected_at = 6)"
    using range by arith
  have hour: "valid_datetime collected_at \<longrightarrow>
      0 \<le> dt_hour collected_at \<and> dt_hour collected_at \<le> 23"
    by (simp add: valid_datetime_def)
  show "\<exists>row. wait_times (db w') = wait_times (db w) @ [row]
        \<and> wt_collected_at row = collected_at
        \<and> wt_day_of_week row = weekday collected_at
        \<and> 0 \<le> wt_day_of_week row \<and> wt_day_of_week row \<le> 6
        \<and> wt_hour row = dt_hour collected_at
        \<and> (valid_datetime collected_at \<longrightarrow> 0 \<le> wt_hour row \<and> wt_hour row \<le> 23)
        \<and> wt_is_weekend row = (wt_day_of_week row = 5 \<or> wt_day_of_week row = 6)"
    using row range weekend hour by (intro exI [of _ row]) simp
next
  show "weekday monday_1430 = 0" by (rule weekday_monday_1430)
next
  show "dt_hour monday_1430 = 14" by (simp add: monday_1430_def)
next
  show "weekday saturday_noon = 5" by (rule weekday_saturday_noon)
qed

lemma insert_wait_time_sample:
  "\<exists>w'. insert_wait_time no_text_keys (JInt 1001) wt (JBool True) t lu sample_world
      = (Inr (), w')" if "opt_int wt" and "lu = JNull \<or> (\<exists>s. lu = JStr s)" for wt t lu
proof -
  from that(1) obtain v where "bind_param wt = Inr v"
    using opt_int_bind by blast
  moreover from that(2) obtain v' where "bind_param lu = Inr v'"
    by auto
  ultimately show ?thesis
    by (simp add: insert_wait_time_def sql_insert_wait_time_def Let_def int64_def
        sample_world_def sample_database_def)
qed

theorem insert_wait_time_derived_fields_witness:
  "valid_datetime monday_1430 \<and> valid_datetime saturday_noon
   \<and> (\<exists>w' row. insert_wait_time no_text_keys (JInt 1001) (JInt 120) (JBool True) monday_1430
          (JStr ''2025-12-29T14:30:00.000Z'') sample_world = (Inr (), w')
        \<and> wait_times (db w') = [row]
        \<and> wt_day_of_week row = 0 \<and> wt_hour row = 14 \<and> wt_is_weekend row = False)
   \<and> (\<exists>w' row. insert_wait_time no_text_keys (JInt 1001) (JInt 180) (JBool True) saturday_noon
          JNull sample_world = (Inr (), w')
        \<and> wait_times (db w') = [row]
        \<and> wt_day_of_week row = 5 \<and> wt_is_weekend row = True)"
proof -
  have v: "valid_datetime monday_1430" "valid_datetime saturday_noon"
    by (simp_all add: valid_datetime_def monday_1430_def saturday_noon_def days_in_month_def
        is_leap_def)
  obtain w1 where w1: "insert_wait_time no_text_keys (JInt 1001) (JInt 120) (JBool True)
      monday_1430 (JStr ''2025-12-29T14:30:00.000Z'') sample_world = (Inr (), w1)"
    using insert_wait_time_sample [of "JInt 120" "JStr ''2025-12-29T14:30:00.000Z''" monday_1430]
    by (auto simp: int64_def)
  obtain w2 where w2: "insert_wait_time no_text_keys (JInt 1001) (JInt 180) (JBool True)
      saturday_noon JNull sample_world = (Inr (), w2)"
    using insert_wait_time_sample [of "JInt 180" JNull saturday_noon]
    by (auto simp: int64_def)
  have e: "wait_times (db sample_world) = []"
    by (simp add: sample_world_def sample_database_def)
  from insert_wait_time_derived_fields [of no_text_keys "JInt 1001" "JInt 120" "JBool True"
      monday_1430 "JStr ''2025-12-29T14:30:00.000Z''" sample_world w1] w1 e
  have m: "\<exists>row. wait_times (db w1) = [row]
        \<and> wt_day_of_week row = 0 \<and> wt_hour row = 14 \<and> wt_is_weekend row = False"
    by auto
  from insert_wait_time_derived_fields [of no_text_keys "JInt 1001" "JInt 180" "JBool True"
      saturday_noon JNull sample_world w2] w2 e
  have s: "\<exists>row. wait_times (db w2) = [row]
        \<and> wt_day_of_week row = 5 \<and> wt_is_weekend row = True"
    by auto
  from v w1 w2 m s show ?thesis by blast
qed

section \<open>Properties of the collector\<close>

subsection \<open>Retries\<close>

lemma range_MAX_RETRIES: "[0..<MAX_RETRIES] = [0, 1, 2]"
  by (simp add: MAX_RETRIES_def upt_rec)

lemma fetch_park_data_unfold:
  "fetch_park_data E park_id w = fetch_attempts E park_id [0, 1, 2] w"
  by (simp add: fetch_park_data_def range_MAX_RETRIES)

lemma trace_sent [simp]: "trace (sent park_id w) = trace w @ [Request park_id]"
  by (simp add: sent_def)

lemma requests_sent [simp]: "requests (sent park_id w) = Suc (requests w)"
  by (simp add: sent_def)

lemma db_sent [simp]: "db (sent park_id w) = db w"
  by (simp add: sent_def)

lemma fetch_step_caught:
  "caught (http_get E (requests w) park_id) \<Longrightarrow>
   fetch_attempts E park_id (attempt # rest) w =
     fetch_attempts E park_id rest
       (if attempt < MAX_RETRIES - 1 then logged (Sleep (2 ^ attempt)) (sent park_id w)
        else sent park_id w)"
  by (cases "http_get E (requests w) park_id") simp_all

lemma fetch_step_response:
  "http_get E (requests w) park_id = Response body \<Longrightarrow>
   fetch_attempts E park_id (attempt # rest) w = (Inr body, sent park_id w)"
  by simp

lemma fetch_step_other:
  "http_get E (requests w) park_id = OtherException \<Longrightarrow>
   fetch_attempts E park_id (attempt # rest) w = (Inl OtherError, sent park_id w)"
  by simp

text \<open>The three ways a fetch can go, by the first attempt that is not a caught failure.\<close>

lemma fetch_park_data_first:
  assumes "\<not> caught (http_get E (requests w) park_id)"
  shows "fetch_park_data E park_id w =
      (case http_get E (requests w) park_id of
         Response body \<Rightarrow> Inr body | _ \<Rightarrow> Inl OtherError,
       sent park_id w)"
  using assms
  by (cases "http_get E (requests w) park_id")
     (simp_all add: fetch_park_data_unfold)

lemma fetch_park_data_second:
  assumes "caught (http_get E (requests w) park_id)"
    and "\<not> caught (http_get E (Suc (requests w)) park_id)"
  shows "fetch_park_data E park_id w =
      (case http_get E (Suc (requests w)) park_id of
         Response body \<Rightarrow> Inr body | _ \<Rightarrow> Inl OtherError,
       sent park_id (logged (Sleep 1) (sent park_id w)))"
  using assms
  by (cases "http_get E (Suc (requests w)) park_id")
     (simp_all add: fetch_park_data_unfold fetch_step_caught fetch_step_response
        fetch_step_other MAX_RETRIES_def del: fetch_attempts.simps(2))

lemma fetch_park_data_third:
  assumes "caught (http_get E (requests w) park_id)"
    and "caught (http_get E (Suc (requests w)) park_id)"
  shows "fetch_park_data E park_id w =
      (case http_get E (Suc (Suc (requests w))) park_id of
         Response body \<Rightarrow> Inr body | OtherException \<Rightarrow> Inl OtherError | _ \<Rightarrow> Inr JNull,
       sent park_id (logged (Sleep 2) (sent park_id (logged (Sleep 1) (sent park_id w)))))"
  using assms
  by (cases "http_get E (Suc (Suc (requests w))) park_id")
     (simp_all add: fetch_park_data_unfold fetch_step_caught fetch_step_response
        fetch_step_other MAX_RETRIES_def del: fetch_attempts.simps(2))

text \<open>
  C2, as the code has it. \<open>fetch_park_data\<close> sends one, two or three requests. After a
  caught failure of the first attempt it waits 1 second, after one of the second attempt 2
  seconds, and after the third attempt it does not wait: there are at most two waits, and
  none of 4 seconds. When all three attempts fail it returns \<open>None\<close>; it returns
  \<open>None\<close> otherwise only when a response body is itself \<open>null\<close>.
\<close>

theorem fetch_park_data_retries:
  "\<exists>evs. trace (snd (fetch_park_data E park_id w)) = trace w @ evs
     \<and> evs \<in> {[Request park_id],
              [Request park_id, Sleep 1, Request park_id],
              [Request park_id, Sleep 1, Request park_id, Sleep 2, Request park_id]}
     \<and> requests (snd (fetch_park_data E park_id w)) \<le> requests w + MAX_RETRIES
     \<and> (caught (http_get E (requests w) park_id)
        \<and> caught (http_get E (requests w + 1) park_id)
        \<and> caught (http_get E (requests w + 2) park_id) \<longrightarrow>
          fst (fetch_park_data E park_id w) = Inr JNull
          \<and> evs = [Request park_id, Sleep 1, Request park_id, Sleep 2, Request park_id])
     \<and> (fst (fetch_park_data E park_id w) = Inr JNull \<longrightarrow>
          (caught (http_get E (requests w) park_id)
           \<and> caught (http_get E (requests w + 1) park_id)
           \<and> caught (http_get E (requests w + 2) park_id))
          \<or> (\<exists>k<3. http_get E (requests w + k) park_id = Response JNull))"
proof -
  let ?a = "\<lambda>k. http_get E (requests w + k) park_id"
  have null: "\<exists>k<3. ?a k = Response JNull" if "?a k = Response JNull" and "k < 3" for k
    using that by blast
  show ?thesis
  proof (cases "caught (?a 0)")
    case False
    with null [of 0] show ?thesis
      by (cases "?a 0") (simp_all add: fetch_park_data_first MAX_RETRIES_def)
  next
    case first: True
    show ?thesis
    proof (cases "caught (?a 1)")
      case False
      with first null [of 1] show ?thesis
        by (cases "?a 1") (simp_all add: fetch_park_data_second MAX_RETRIES_def)
    next
      case True
      with first null [of 2] show ?thesis
        by (cases "?a 2") (simp_all add: fetch_park_data_third MAX_RETRIES_def)
    qed
  qed
qed

theorem fetch_park_data_retries_witness:
  "caught (http_get offline 0 64) \<and> caught (http_get offline 1 64)
   \<and> caught (http_get offline 2 64)
   \<and> fetch_park_data offline 64 start =
       (Inr JNull,
        \<lparr>db = empty_database,
         trace = [Request 64, Sleep 1, Request 64, Sleep 2, Request 64],
         requests = 3\<rparr>)"
  using fetch_park_data_retries [of offline 64 start]
  by (simp add: offline_def start_def fetch_park_data_unfold MAX_RETRIES_def
      sent_def logged_def)

text \<open>
  With every attempt failing, the waits are 1 and 2 seconds: not 1, 2 and 4. And a first
  attempt that succeeds with the body \<open>null\<close> returns \<open>None\<close> at once.
\<close>

theorem fetch_park_data_no_third_wait:
  "fst (fetch_park_data offline 64 start) = Inr JNull
   \<and> sleeps (trace (snd (fetch_park_data offline 64 start))) = [1, 2]
   \<and> sleeps (trace (snd (fetch_park_data offline 64 start))) \<noteq> [1, 2, 4]
   \<and> \<not> caught (http_get null_body 0 64)
   \<and> fetch_park_data null_body 64 start =
       (Inr JNull, \<lparr>db = empty_database, trace = [Request 64], requests = 1\<rparr>)"
  by (simp add: offline_def null_body_def start_def fetch_park_data_unfold MAX_RETRIES_def
      sent_def logged_def)

subsection \<open>The order of the store writes\<close>

lemma park_seen_append [simp]: "park_seen p (xs @ ys) = (park_seen p xs \<or> park_seen p ys)"
  by (induction p xs rule: park_seen.induct) auto

lemma land_seen_append [simp]: "land_seen l (xs @ ys) = (land_seen l xs \<or> land_seen l ys)"
  by (induction l xs rule: land_seen.induct) auto

lemma ride_seen_append [simp]: "ride_seen r (xs @ ys) = (ride_seen r xs \<or> ride_seen r ys)"
  by (induction r xs rule: ride_seen.induct) auto

lemma parents_first_append:
  "parents_first seen (xs @ ys) = (parents_first seen xs \<and> parents_first (seen @ xs) ys)"
  by (induction xs arbitrary: seen) auto

lemma parents_first_ride_calls:
  "park_seen (JInt park_id) seen \<Longrightarrow>
   parents_first seen (concat (map (ride_calls park_id collected_at) rs))"
  by (induction rs arbitrary: seen) (auto simp: parents_first_append ride_calls_def)

lemma parents_first_park_calls:
  "parents_first [] (park_calls park_id park_name collected_at rs)"
  by (simp add: park_calls_def parents_first_ride_calls)

text \<open>Every store function logs its call and nothing else, whatever it returns.\<close>

lemma commit_trace: "commit w r = (res, w') \<Longrightarrow> trace w' = trace w \<and> requests w' = requests w"
  by (cases r) auto

lemma insert_park_trace:
  "insert_park cv a b w = (res, w') \<Longrightarrow> trace w' = trace w @ [InsertPark a b]"
  by (auto simp: insert_park_def dest!: commit_trace)

lemma insert_land_trace:
  "insert_land cv a b c w = (res, w') \<Longrightarrow> trace w' = trace w @ [InsertLand a b c]"
  by (auto simp: insert_land_def dest!: commit_trace)

lemma insert_ride_trace:
  "insert_ride cv a b c d w = (res, w') \<Longrightarrow> trace w' = trace w @ [InsertRide a b c d]"
  by (auto simp: insert_ride_def dest!: commit_trace)

lemma insert_wait_time_trace:
  "insert_wait_time cv a b c t d w = (res, w') \<Longrightarrow>
   trace w' = trace w @ [InsertWaitTime a b c t d]"
  by (auto simp: insert_wait_time_def Let_def dest!: commit_trace)

lemma bindW_cases:
  assumes "bindW m f = (res, w')"
  obtains (raised) e where "m = (Inl e, w')" and "res = Inl e"
  | (returned) x w1 where "m = (Inr x, w1)" and "f x w1 = (res, w')"
  using assms by (cases m; cases "fst m") auto

lemma land_step_trace:
  "(if l \<noteq> JNull then insert_land cv l p n w else (Inr (), w)) = (res, w') \<Longrightarrow>
   trace w' = trace w @ (if l \<noteq> JNull then [InsertLand l p n] else [])"
  by (cases "l = JNull") (simp_all add: insert_land_trace)

lemma collect_rides_trace:
  assumes "collect_rides E park_id collected_at rs n w = (res, w')"
  shows "\<exists>calls rest. trace w' = trace w @ calls
     \<and> concat (map (ride_calls park_id collected_at) rs) = calls @ rest
     \<and> (\<forall>m. res = Inr m \<longrightarrow> rest = [] \<and> m = n + int (length rs))"
  using assms
proof (induction rs arbitrary: n w)
  case Nil
  then show ?case by auto
next
  case (Cons r rs)
  let ?land = "if r_land_id r \<noteq> JNull
      then [InsertLand (r_land_id r) (JInt park_id) (r_land_name r)] else []"
  let ?ride = "InsertRide (r_id r) (JInt park_id) (r_name r) (r_land_id r)"
  let ?wait = "InsertWaitTime (r_id r) (r_wait_time r) (r_is_open r) collected_at
      (r_last_updated r)"
  let ?tail = "concat (map (ride_calls park_id collected_at) rs)"
  have plan: "concat (map (ride_calls park_id collected_at) (r # rs))
      = ?land @ ?ride # ?wait # ?tail"
    by (simp add: ride_calls_def)
  from Cons.prems show ?case
    unfolding collect_rides.simps
  proof (cases rule: bindW_cases)
    case (raised e)
    have "trace w' = trace w @ ?land"
      by (rule land_step_trace [OF raised(1)])
    with raised(2) plan show ?thesis
      by (intro exI [of _ ?land] exI [of _ "?ride # ?wait # ?tail"]) simp
  next
    case land: (returned x w1)
    have w1: "trace w1 = trace w @ ?land"
      by (rule land_step_trace [OF land(1)])
    from land(2) show ?thesis
    proof (cases rule: bindW_cases)
      case (raised e)
      have "trace w' = trace w @ (?land @ [?ride])"
        using insert_ride_trace [OF raised(1)] w1 by simp
      with raised(2) plan show ?thesis
        by (intro exI [of _ "?land @ [?ride]"] exI [of _ "?wait # ?tail"]) simp
    next
      case ride: (returned y w2)
      have w2: "trace w2 = trace w @ ?land @ [?ride]"
        using insert_ride_trace [OF ride(1)] w1 by simp
      from ride(2) show ?thesis
      proof (cases rule: bindW_cases)
        case (raised e)
        have "trace w' = trace w @ (?land @ [?ride, ?wait])"
          using insert_wait_time_trace [OF raised(1)] w2 by simp
        with raised(2) plan show ?thesis
          by (intro exI [of _ "?land @ [?ride, ?wait]"] exI [of _ ?tail]) simp
      next
        case wait: (returned z w3)
        have w3: "trace w3 = trace w @ ?land @ [?ride, ?wait]"
          using insert_wait_time_trace [OF wait(1)] w2 by simp
        from Cons.IH [OF wait(2)] obtain calls rest where
          rec: "trace w' = trace w3 @ calls" "?tail = calls @ rest"
            "\<forall>m. res = Inr m \<longrightarrow> rest = [] \<and> m = n + 1 + int (length rs)"
          by blast
        have "trace w' = trace w @ (?land @ ?ride # ?wait # calls)"
          using rec(1) w3 by simp
        moreover have "?land @ ?ride # ?wait # ?tail = (?land @ ?ride # ?wait # calls) @ rest"
          by (simp only: rec(2) append_assoc append_Cons)
        then have "concat (map (ride_calls park_id collected_at) (r # rs))
            = (?land @ ?ride # ?wait # calls) @ rest"
          by (simp only: plan)
        moreover have "\<forall>m. res = Inr m \<longrightarrow> rest = [] \<and> m = n + int (length (r # rs))"
        proof (intro allI impI)
          fix m
          assume "res = Inr m"
          with rec(3) have "rest = [] \<and> m = n + 1 + int (length rs)"
            by blast
          then show "rest = [] \<and> m = n + int (length (r # rs))"
            by simp
        qed
        ultimately show ?thesis by blast
      qed
    qed
  qed
qed

text \<open>
  C7. After a successful fetch, the store calls of \<open>collect_park\<close> are an initial part of:
  the upsert of the park, then for each parsed ride, in the order of \<open>parse_rides\<close>, the
  upsert of its land when \<open>land_id\<close> is not null, the upsert of the ride and its reading.
  They are all of it, one reading per ride, when \<open>collect_park\<close> returns a count. In that
  order every reading comes after the upsert of its ride, and every ride after the upserts
  of its park and of its land.
\<close>

theorem collect_park_write_order:
  assumes "fetch_park_data E park_id w = (Inr data, w1)" and "data \<noteq> JNull"
    and "parse_rides data park_id = Inr rs"
    and "collect_park E park_id park_name collected_at w = (res, w')"
  shows "\<exists>calls rest. trace w' = trace w1 @ calls
     \<and> park_calls park_id park_name collected_at rs = calls @ rest
     \<and> calls \<noteq> []
     \<and> (\<forall>n. res = Inr n \<longrightarrow> rest = [] \<and> n = int (length rs))
     \<and> parents_first [] calls"
proof -
  let ?park = "InsertPark (JInt park_id) (JStr park_name)"
  let ?plan = "concat (map (ride_calls park_id collected_at) rs)"
  have run: "bindW (insert_park (text_key E) (JInt park_id) (JStr park_name) w1)
      (\<lambda>_ w2. collect_rides E park_id collected_at rs 0 w2) = (res, w')"
    using assms by (simp add: collect_park_def)
  have "\<exists>calls rest. trace w' = trace w1 @ calls
     \<and> park_calls park_id park_name collected_at rs = calls @ rest
     \<and> calls \<noteq> []
     \<and> (\<forall>n. res = Inr n \<longrightarrow> rest = [] \<and> n = int (length rs))"
    using run
  proof (cases rule: bindW_cases)
    case (raised e)
    then have "trace w' = trace w1 @ [?park]"
      by (auto dest: insert_park_trace)
    with raised show ?thesis
      by (auto simp: park_calls_def)
  next
    case (returned x w2)
    then have w2: "trace w2 = trace w1 @ [?park]"
      by (auto dest: insert_park_trace)
    from collect_rides_trace [OF returned(2)] obtain calls rest where
      rec: "trace w' = trace w2 @ calls" "?plan = calls @ rest"
        "\<forall>m. res = Inr m \<longrightarrow> rest = [] \<and> m = 0 + int (length rs)"
      by blast
    have "trace w' = trace w1 @ (?park # calls)"
      using rec(1) w2 by simp
    moreover have "park_calls park_id park_name collected_at rs = (?park # calls) @ rest"
      using rec(2) by (simp add: park_calls_def)
    ultimately show ?thesis
      using rec(3) by (intro exI [of _ "?park # calls"] exI [of _ rest]) simp
  qed
  then obtain calls rest where
    c: "trace w' = trace w1 @ calls"
      "park_calls park_id park_name collected_at rs = calls @ rest" "calls \<noteq> []"
      "\<forall>n. res = Inr n \<longrightarrow> rest = [] \<and> n = int (length rs)"
    by blast
  have "parents_first [] (calls @ rest)"
    using parents_first_park_calls [of park_id park_name collected_at rs] c(2) by simp
  then have "parents_first [] calls"
    by (simp add: parents_first_append)
  with c show ?thesis by blast
qed

lemma fetch_online_64: "fetch_park_data online 64 w = (Inr sample_response, sent 64 w)"
  by (simp add: fetch_park_data_unfold online_def)

lemma text_key_online: "text_key online = no_text_keys"
  by (simp add: online_def)

lemma sample_response_not_null: "sample_response \<noteq> JNull"
  by (simp add: sample_response_def)

lemma expected_rides_sample:
  "expected_rides sample_response 64 =
     [\<lparr>r_id = JInt 1001, r_name = JStr ''Hagrid's Magical Creatures Motorbike Adventure'',
       r_is_open = JBool True, r_wait_time = JInt 120,
       r_last_updated = JStr ''2025-12-30T14:30:00.000Z'', r_land_id = JInt 100,
       r_land_name = JStr ''The Wizarding World of Harry Potter'', r_park_id = 64\<rparr>,
      \<lparr>r_id = JInt 1002, r_name = JStr ''Harry Potter and the Forbidden Journey'',
       r_is_open = JBool True, r_wait_time = JInt 45,
       r_last_updated = JStr ''2025-12-30T14:30:00.000Z'', r_land_id = JInt 100,
       r_land_name = JStr ''The Wizarding World of Harry Potter'', r_park_id = 64\<rparr>,
      \<lparr>r_id = JInt 1003, r_name = JStr ''VelociCoaster'',
       r_is_open = JBool False, r_wait_time = JNull,
       r_last_updated = JStr ''2025-12-30T14:30:00.000Z'', r_land_id = JInt 101,
       r_land_name = JStr ''Jurassic Park'', r_park_id = 64\<rparr>,
      \<lparr>r_id = JInt 2001, r_name = JStr ''Hagrid's - Single Rider'',
       r_is_open = JBool True, r_wait_time = JInt 0,
       r_last_updated = JStr ''2025-12-30T14:30:00.000Z'', r_land_id = JNull,
       r_land_name = JNull, r_park_id = 64\<rparr>]"
  by (simp add: expected_rides_def land_rides_def lands_of_def rides_of_def expected_ride_def
      sample_response_def dict_get_def)

lemma collect_park_online_64:
  "fst (collect_park online 64 ''Islands of Adventure'' monday_1430 start) = Inr 4"
  by (simp add: collect_park_def fetch_online_64 sample_response_not_null
      parse_rides_valid valid_sample_response expected_rides_sample
      insert_park_def insert_land_def insert_ride_def insert_wait_time_def
      sql_insert_park_def sql_insert_land_def sql_insert_ride_def sql_insert_wait_time_def
      text_key_online no_text_keys_def start_def empty_database_def sent_def logged_def
      int64_def Let_def)

theorem collect_park_write_order_witness:
  "fetch_park_data online 64 start = (Inr sample_response, sent 64 start)
   \<and> sample_response \<noteq> JNull
   \<and> parse_rides sample_response 64 = Inr (expected_rides sample_response 64)
   \<and> fst (collect_park online 64 ''Islands of Adventure'' monday_1430 start) = Inr 4
   \<and> trace (snd (collect_park online 64 ''Islands of Adventure'' monday_1430 start))
       = Request 64 # park_calls 64 ''Islands of Adventure'' monday_1430
           (expected_rides sample_response 64)
   \<and> parents_first [] (park_calls 64 ''Islands of Adventure'' monday_1430
           (expected_rides sample_response 64))"
proof -
  let ?run = "collect_park online 64 ''Islands of Adventure'' monday_1430 start"
  have parse: "parse_rides sample_response 64 = Inr (expected_rides sample_response 64)"
    by (rule parse_rides_valid [OF valid_sample_response])
  have run: "?run = (Inr 4, snd ?run)"
    using collect_park_online_64 by (simp add: prod_eq_iff)
  from collect_park_write_order [OF fetch_online_64 sample_response_not_null parse run]
  obtain calls rest where
    c: "trace (snd ?run) = trace (sent 64 start) @ calls"
      "park_calls 64 ''Islands of Adventure'' monday_1430 (expected_rides sample_response 64)
        = calls @ rest"
      "\<forall>n. (Inr 4 :: error + int) = Inr n \<longrightarrow> rest = [] \<and> n = int (length (expected_rides sample_response 64))"
      "parents_first [] calls"
    by blast
  from c(3) have "rest = []" by blast
  with c have "trace (snd ?run) = Request 64 # park_calls 64 ''Islands of Adventure''
      monday_1430 (expected_rides sample_response 64)"
    and "parents_first [] (park_calls 64 ''Islands of Adventure'' monday_1430
           (expected_rides sample_response 64))"
    by (simp_all add: start_def)
  with fetch_online_64 sample_response_not_null parse collect_park_online_64
  show ?thesis by simp
qed

subsection \<open>A reading without its ride\<close>

lemma sql_insert_wait_time_no_ride:
  "\<not> ride_row_exists cv a d \<Longrightarrow>
   sql_insert_wait_time cv a b c t u dow h we d = Inl IntegrityError"
  by (cases a) (auto simp: sql_insert_wait_time_def ride_row_exists_def Let_def
      split: option.splits)

lemma insert_wait_time_no_ride:
  assumes "bind_param ride_id = Inr a" and "bind_param wait_time = Inr b"
    and "bind_param is_open = Inr c" and "bind_param api_last_updated = Inr u"
    and "\<not> ride_row_exists cv a (db w)"
  shows "insert_wait_time cv ride_id wait_time is_open collected_at api_last_updated w =
     (Inl IntegrityError,
      logged (InsertWaitTime ride_id wait_time is_open collected_at api_last_updated) w)"
  using assms
  by (simp add: insert_wait_time_def Let_def sql_insert_wait_time_no_ride)

text \<open>Nothing in the collector catches an exception of the store.\<close>

lemma bindW_assoc:
  "bindW (bindW m f) g = bindW m (\<lambda>x w. bindW (f x w) g)"
  by (cases m; cases "fst m") auto

lemma bindW_ext: "(\<And>x w. f x w = g x w) \<Longrightarrow> bindW m f = bindW m g"
  by (cases m; cases "fst m") auto

lemma collect_rides_append:
  "collect_rides E park_id t (xs @ ys) n w =
     bindW (collect_rides E park_id t xs n w) (\<lambda>m w1. collect_rides E park_id t ys m w1)"
proof (induction xs arbitrary: n w)
  case Nil
  show ?case by simp
next
  case (Cons x xs)
  show ?case
    unfolding append_Cons collect_rides.simps bindW_assoc
    by (intro bindW_ext) (rule Cons.IH)
qed

lemma parks_loop_append:
  "parks_loop E t (xs @ ys) results w =
     bindW (parks_loop E t xs results w) (\<lambda>res w1. parks_loop E t ys res w1)"
proof (induction xs arbitrary: results w)
  case Nil
  show ?case by simp
next
  case (Cons x xs)
  obtain park_id park_name where x: "x = (park_id, park_name)"
    by (cases x)
  show ?case
    unfolding x append_Cons parks_loop.simps bindW_assoc
    by (intro bindW_ext) (rule Cons.IH)
qed

lemma collect_rides_raises:
  assumes "collect_rides E park_id t rs0 n0 w = (Inr n, w1)"
    and "(if r_land_id r \<noteq> JNull
          then insert_land (text_key E) (r_land_id r) (JInt park_id) (r_land_name r) w1
          else (Inr (), w1)) = (Inr (), w2)"
    and "insert_ride (text_key E) (r_id r) (JInt park_id) (r_name r) (r_land_id r) w2
          = (Inr (), w3)"
    and "insert_wait_time (text_key E) (r_id r) (r_wait_time r) (r_is_open r) t
          (r_last_updated r) w3 = (Inl e, w')"
  shows "collect_rides E park_id t (rs0 @ r # rs) n0 w = (Inl e, w')"
  using assms by (simp add: collect_rides_append)

lemma collect_park_raises:
  assumes "fetch_park_data E park_id w = (Inr data, w1)" and "data \<noteq> JNull"
    and "insert_park (text_key E) (JInt park_id) (JStr park_name) w1 = (Inr (), w2)"
    and "parse_rides data park_id = Inr rs"
    and "collect_rides E park_id t rs 0 w2 = (Inl e, w')"
  shows "collect_park E park_id park_name t w = (Inl e, w')"
  using assms by (simp add: collect_park_def)

lemma main_raises:
  assumes "PARKS = ps0 @ (park_id, park_name) # ps"
    and "parks_loop E (now E) ps0 [] w = (Inr results, w1)"
    and "collect_park E park_id park_name (now E) w1 = (Inl e, w')"
  shows "main E False w = (Inl e, w')"
proof -
  have "parks_loop E (now E) PARKS [] w = (Inl e, w')"
    unfolding assms(1) parks_loop_append by (simp add: assms(2,3))
  then show ?thesis
    by (simp add: main_def collect_all_parks_def init_database_def)
qed

text \<open>
  C9. A call of \<open>insert_wait_time\<close> whose arguments the store accepts and whose
  \<open>ride_id\<close> is the id of no ride row raises \<open>IntegrityError\<close> and writes nothing.
  When a reading raises during a run, at whatever park and ride, \<open>main\<close> ends with that
  exception at once: no later ride or park is processed.
\<close>

theorem reading_without_ride_is_fatal:
  "(bind_param ride_id = Inr a \<and> bind_param wait_time = Inr b
      \<and> bind_param is_open = Inr c \<and> bind_param api_last_updated = Inr u
      \<and> \<not> ride_row_exists cv a (db w) \<longrightarrow>
      insert_wait_time cv ride_id wait_time is_open collected_at api_last_updated w =
        (Inl IntegrityError,
         logged (InsertWaitTime ride_id wait_time is_open collected_at api_last_updated) w)
      \<and> db (logged (InsertWaitTime ride_id wait_time is_open collected_at api_last_updated) w)
          = db w)
   \<and> (PARKS = ps0 @ (park_id, park_name) # ps
      \<and> parks_loop E (now E) ps0 [] w0 = (Inr results, w1)
      \<and> fetch_park_data E park_id w1 = (Inr data, w2) \<and> data \<noteq> JNull
      \<and> insert_park (text_key E) (JInt park_id) (JStr park_name) w2 = (Inr (), w3)
      \<and> parse_rides data park_id = Inr (rs0 @ r # rs)
      \<and> collect_rides E park_id (now E) rs0 0 w3 = (Inr n, w4)
      \<and> (if r_land_id r \<noteq> JNull
          then insert_land (text_key E) (r_land_id r) (JInt park_id) (r_land_name r) w4
          else (Inr (), w4)) = (Inr (), w5)
      \<and> insert_ride (text_key E) (r_id r) (JInt park_id) (r_name r) (r_land_id r) w5
          = (Inr (), w6)
      \<and> insert_wait_time (text_key E) (r_id r) (r_wait_time r) (r_is_open r) (now E)
          (r_last_updated r) w6 = (Inl e, w7) \<longrightarrow>
      main E False w0 = (Inl e, w7))"
proof (intro conjI impI)
  assume "bind_param ride_id = Inr a \<and> bind_param wait_time = Inr b
      \<and> bind_param is_open = Inr c \<and> bind_param api_last_updated = Inr u
      \<and> \<not> ride_row_exists cv a (db w)"
  then show "insert_wait_time cv ride_id wait_time is_open collected_at api_last_updated w =
        (Inl IntegrityError,
         logged (InsertWaitTime ride_id wait_time is_open collected_at api_last_updated) w)"
    by (simp add: insert_wait_time_no_ride)
next
  show "db (logged (InsertWaitTime ride_id wait_time is_open collected_at api_last_updated) w)
      = db w"
    by simp
next
  assume h: "PARKS = ps0 @ (park_id, park_name) # ps
      \<and> parks_loop E (now E) ps0 [] w0 = (Inr results, w1)
      \<and> fetch_park_data E park_id w1 = (Inr data, w2) \<and> data \<noteq> JNull
      \<and> insert_park (text_key E) (JInt park_id) (JStr park_name) w2 = (Inr (), w3)
      \<and> parse_rides data park_id = Inr (rs0 @ r # rs)
      \<and> collect_rides E park_id (now E) rs0 0 w3 = (Inr n, w4)
      \<and> (if r_land_id r \<noteq> JNull
          then insert_land (text_key E) (r_land_id r) (JInt park_id) (r_land_name r) w4
          else (Inr (), w4)) = (Inr (), w5)
      \<and> insert_ride (text_key E) (r_id r) (JInt park_id) (r_name r) (r_land_id r) w5
          = (Inr (), w6)
      \<and> insert_wait_time (text_key E) (r_id r) (r_wait_time r) (r_is_open r) (now E)
          (r_last_updated r) w6 = (Inl e, w7)"
  then have "collect_rides E park_id (now E) (rs0 @ r # rs) 0 w3 = (Inl e, w7)"
    by (intro collect_rides_raises [where n = n and ?w1.0 = w4 and ?w2.0 = w5 and ?w3.0 = w6])
       simp_all
  with h have "collect_park E park_id park_name (now E) w1 = (Inl e, w7)"
    by (intro collect_park_raises [where data = data and ?w1.0 = w2 and ?w2.0 = w3
          and rs = "rs0 @ r # rs"]) simp_all
  with h show "main E False w0 = (Inl e, w7)"
    by (intro main_raises [where ?ps0.0 = ps0 and ps = ps and results = results
          and ?w1.0 = w1 and park_id = park_id and park_name = park_name]) simp_all
qed

theorem reading_without_ride_is_fatal_witness:
  "insert_wait_time no_text_keys (JInt 999) (JInt 5) (JBool True) monday_1430 JNull sample_world
     = (Inl IntegrityError,
        logged (InsertWaitTime (JInt 999) (JInt 5) (JBool True) monday_1430 JNull) sample_world)
   \<and> main nameless False start =
       (Inl IntegrityError,
        \<lparr>db = park_64_only,
         trace = [Request 64,
                  InsertPark (JInt 64) (JStr ''Islands of Adventure''),
                  InsertRide (JInt 7) (JInt 64) JNull JNull,
                  InsertWaitTime (JInt 7) JNull (JBool False) monday_1430 JNull],
         requests = 1\<rparr>)"
proof -
  let ?w2 = "\<lparr>db = empty_database, trace = [Request 64], requests = 1\<rparr>"
  let ?w3 = "\<lparr>db = park_64_only,
      trace = [Request 64, InsertPark (JInt 64) (JStr ''Islands of Adventure'')],
      requests = 1\<rparr>"
  let ?w6 = "\<lparr>db = park_64_only,
      trace = [Request 64, InsertPark (JInt 64) (JStr ''Islands of Adventure''),
               InsertRide (JInt 7) (JInt 64) JNull JNull],
      requests = 1\<rparr>"
  let ?w7 = "\<lparr>db = park_64_only,
      trace = [Request 64, InsertPark (JInt 64) (JStr ''Islands of Adventure''),
               InsertRide (JInt 7) (JInt 64) JNull JNull,
               InsertWaitTime (JInt 7) JNull (JBool False) monday_1430 JNull],
      requests = 1\<rparr>"
  have tk: "text_key nameless = no_text_keys" and nw: "now nameless = monday_1430"
    by (simp_all add: nameless_def)
  have p: "PARKS = [] @ (64, ''Islands of Adventure'')
      # [(65, ''Universal Studios Florida''), (334, ''Epic Universe'')]"
    by (simp add: PARKS_def)
  have f: "fetch_park_data nameless 64 start
      = (Inr (JObj [(''rides'', JArr [JObj [(''id'', JInt 7)]])]), ?w2)"
    by (simp add: fetch_park_data_unfold nameless_def start_def sent_def logged_def)
  have ip: "insert_park no_text_keys (JInt 64) (JStr ''Islands of Adventure'') ?w2
      = (Inr (), ?w3)"
    by (simp add: insert_park_def sql_insert_park_def logged_def int64_def empty_database_def
        park_64_only_def)
  have pr: "parse_rides (JObj [(''rides'', JArr [JObj [(''id'', JInt 7)]])]) 64
      = Inr ([] @ nameless_ride # [])"
    by (simp add: parse_rides_def dict_get_def nameless_ride_def)
  have ir: "insert_ride no_text_keys (JInt 7) (JInt 64) JNull JNull ?w3 = (Inr (), ?w6)"
    by (simp add: insert_ride_def sql_insert_ride_def logged_def int64_def)
  have iw: "insert_wait_time no_text_keys (JInt 7) JNull (JBool False) monday_1430 JNull ?w6
      = (Inl IntegrityError, ?w7)"
    by (simp add: insert_wait_time_def sql_insert_wait_time_def logged_def int64_def Let_def
        park_64_only_def empty_database_def)
  have missing: "\<not> ride_row_exists no_text_keys (SInt 999) (db sample_world)"
    by (simp add: ride_row_exists_def sample_world_def sample_database_def)
  from reading_without_ride_is_fatal [where ride_id = "JInt 999" and a = "SInt 999"
      and wait_time = "JInt 5" and b = "SInt 5" and is_open = "JBool True" and c = "SInt 1"
      and api_last_updated = JNull and u = SNull and cv = no_text_keys and w = sample_world
      and collected_at = monday_1430
      and ?ps0.0 = "[]" and park_id = 64 and park_name = "''Islands of Adventure''"
      and ps = "[(65, ''Universal Studios Florida''), (334, ''Epic Universe'')]"
      and E = nameless and ?w0.0 = start and results = "[]" and ?w1.0 = start
      and data = "JObj [(''rides'', JArr [JObj [(''id'', JInt 7)]])]" and ?w2.0 = ?w2
      and ?w3.0 = ?w3 and ?rs0.0 = "[]" and r = nameless_ride and rs = "[]" and n = 0
      and ?w4.0 = ?w3 and ?w5.0 = ?w3 and ?w6.0 = ?w6 and e = IntegrityError and ?w7.0 = ?w7]
    p f ip pr ir iw missing
  show ?thesis
    by (simp add: tk nw int64_def nameless_ride_def)
qed

subsection \<open>A park whose fetch fails\<close>










subsection \<open>Lands without an id or a name\<close>






















end
